theory Spec2Isabelle
  imports Main "HOL-Library.Word"
begin

section \<open>The item usecase layer (internal/usecase/service.go)\<close>

text \<open>
  A shallow embedding of the Go package \<^verbatim>\<open>usecase\<close>. Go's \<^verbatim>\<open>int64\<close> and \<^verbatim>\<open>int\<close>
  (taken at its 64-bit width) are 64-bit words read in two's complement with \<open>sint\<close>;
  a Go \<^verbatim>\<open>string\<close> is its byte sequence, so \<open>length\<close> is Go's \<^verbatim>\<open>len\<close>; a pointer
  \<^verbatim>\<open>*entity.Item\<close> is an \<open>Item option\<close> with \<open>None\<close> for \<^verbatim>\<open>nil\<close>. The
  \<^verbatim>\<open>context.Context\<close> argument is handed to the repository unchanged and is left out.
  An item the repository returns is a copy of its own: what \<^verbatim>\<open>UpdateItem\<close> writes
  through the pointer reaches the repository's state only through \<^verbatim>\<open>Update\<close>.
\<close>

type_synonym int64 = "64 word"
type_synonym go_int = "64 word"

subsection \<open>Errors\<close>

text \<open>
  Modelled from the spec: package \<^verbatim>\<open>domainErrors\<close> is not part of the sources; its two
  sentinel values are the constructors \<open>ErrInvalidInput\<close> and \<open>ErrItemNotFound\<close>,
  and its predicate \<^verbatim>\<open>IsNotFoundError\<close> is a parameter of every operation that calls it.
  \<open>Other e\<close> is any error value made elsewhere (by the store, say) and
  \<open>Errorf pre err post\<close> is \<^verbatim>\<open>fmt.Errorf(pre + "%w" + post, err)\<close>.
\<close>

datatype 'e error =
    ErrInvalidInput
  | ErrItemNotFound
  | Other 'e
  | Errorf string "'e error" string

text \<open>Go's \<^verbatim>\<open>errors.Is\<close>: the error kind, found along the chain of wrapped errors.\<close>

fun errors_Is :: "'e error \<Rightarrow> 'e error \<Rightarrow> bool" where
  "errors_Is (Errorf pre err post) target =
     (Errorf pre err post = target \<or> errors_Is err target)"
| "errors_Is err target = (err = target)"

subsection \<open>Data\<close>

text \<open>
  Modelled from the spec: \<^verbatim>\<open>entity.Item\<close> is declared outside the sources; the fields
  are those of section 3 of the specification, the two timestamps as seconds.
\<close>

record Item =
  ID :: int64
  Name :: string
  Category :: string
  Brand :: string
  PurchasePrice :: go_int
  PurchaseDate :: string
  CreatedAt :: int
  UpdatedAt :: int

record CreateItemInput =
  new_Name :: string
  new_Category :: string
  new_Brand :: string
  new_PurchasePrice :: go_int
  new_PurchaseDate :: string

text \<open>The pointer fields of \<^verbatim>\<open>UpdateItemInput\<close>: \<open>None\<close> is a field absent from the request.\<close>

record UpdateItemInput =
  upd_Name :: "string option"
  upd_Brand :: "string option"
  upd_PurchasePrice :: "go_int option"

text \<open>
  The map \<^verbatim>\<open>Categories\<close> is written by key only, so it is a partial function. The map
  the repository returns is ranged over, so it is the list of its entries in the order
  of that iteration (the keys of a Go map are distinct).
\<close>

record CategorySummary =
  Categories :: "string \<rightharpoonup> go_int"
  Total :: go_int

subsection \<open>The repository\<close>

text \<open>
  Modelled from the spec: the interface \<^verbatim>\<open>ItemRepository\<close> is declared outside the
  sources; it has the six methods of section 6 of the specification. An implementation
  has a state \<open>'s\<close> the methods read and change. A result \<^verbatim>\<open>(value, err)\<close> is
  \<open>Inl err\<close> when \<^verbatim>\<open>err != nil\<close> (the service never reads the value then) and
  \<open>Inr value\<close> otherwise; the result of \<^verbatim>\<open>Delete\<close> is \<open>None\<close> for \<^verbatim>\<open>nil\<close>.
\<close>

record ('s, 'e) ItemRepository =
  FindAll :: "'s \<Rightarrow> ('e error + Item option list) \<times> 's"
  FindByID :: "int64 \<Rightarrow> 's \<Rightarrow> ('e error + Item option) \<times> 's"
  Create :: "Item option \<Rightarrow> 's \<Rightarrow> ('e error + Item option) \<times> 's"
  Update :: "Item option \<Rightarrow> 's \<Rightarrow> ('e error + Item option) \<times> 's"
  Delete :: "int64 \<Rightarrow> 's \<Rightarrow> 'e error option \<times> 's"
  GetSummaryByCategory :: "'s \<Rightarrow> ('e error + (string \<times> go_int) list) \<times> 's"

text \<open>The repository calls an operation makes, in order.\<close>

datatype call =
    Call_FindAll
  | Call_FindByID int64
  | Call_Create "Item option"
  | Call_Update "Item option"
  | Call_Delete int64
  | Call_GetSummaryByCategory

record ('s, 'e) itemUsecase =
  itemRepo :: "('s, 'e) ItemRepository"

definition NewItemUsecase :: "('s, 'e) ItemRepository \<Rightarrow> ('s, 'e) itemUsecase" where
  "NewItemUsecase r = \<lparr>itemRepo = r\<rparr>"

subsection \<open>The operations\<close>

text \<open>
  Every operation takes the repository's state and returns its result, the state after
  it and the repository calls it made.
\<close>

definition GetAllItems ::
  "('s, 'e) itemUsecase \<Rightarrow> 's \<Rightarrow> ('e error + Item option list) \<times> 's \<times> call list" where
  "GetAllItems u s =
     (case FindAll (itemRepo u) s of
        (Inl err, s1) \<Rightarrow> (Inl (Errorf ''failed to retrieve items: '' err ''''), s1, [Call_FindAll])
      | (Inr items, s1) \<Rightarrow> (Inr items, s1, [Call_FindAll]))"

definition GetItemByID ::
  "('e error \<Rightarrow> bool) \<Rightarrow> ('s, 'e) itemUsecase \<Rightarrow> int64 \<Rightarrow> 's
     \<Rightarrow> ('e error + Item option) \<times> 's \<times> call list" where
  "GetItemByID IsNotFoundError u item_id s =
     (if sint item_id \<le> 0 then (Inl ErrInvalidInput, s, [])
      else case FindByID (itemRepo u) item_id s of
        (Inl err, s1) \<Rightarrow>
          if IsNotFoundError err then (Inl ErrItemNotFound, s1, [Call_FindByID item_id])
          else (Inl (Errorf ''failed to retrieve item: '' err ''''), s1, [Call_FindByID item_id])
      | (Inr item, s1) \<Rightarrow> (Inr item, s1, [Call_FindByID item_id]))"

text \<open>
  \<^verbatim>\<open>entity.NewItem\<close> is outside the sources and is a parameter: \<open>Inl reason\<close> is a
  rejection whose \<^verbatim>\<open>err.Error()\<close> is \<open>reason\<close>, \<open>Inr item\<close> the constructed item.
\<close>

definition CreateItem ::
  "(string \<Rightarrow> string \<Rightarrow> string \<Rightarrow> go_int \<Rightarrow> string \<Rightarrow> string + Item option)
     \<Rightarrow> ('s, 'e) itemUsecase \<Rightarrow> CreateItemInput \<Rightarrow> 's
     \<Rightarrow> ('e error + Item option) \<times> 's \<times> call list" where
  "CreateItem NewItem u input s =
     (case NewItem (new_Name input) (new_Category input) (new_Brand input)
             (new_PurchasePrice input) (new_PurchaseDate input) of
        Inl reason \<Rightarrow> (Inl (Errorf '''' ErrInvalidInput ('': '' @ reason)), s, [])
      | Inr item \<Rightarrow>
          (case Create (itemRepo u) item s of
             (Inl err, s1) \<Rightarrow>
               (Inl (Errorf ''failed to create item: '' err ''''), s1, [Call_Create item])
           | (Inr createdItem, s1) \<Rightarrow> (Inr createdItem, s1, [Call_Create item])))"

text \<open>
  \<^verbatim>\<open>UpdateItem\<close> writes through the pointer \<^verbatim>\<open>FindByID\<close> returned, which panics when
  the repository returned \<^verbatim>\<open>nil\<close> with no error. Each of the three blocks of step 2
  either returns early (\<open>Returns (Inl err)\<close>), panics, or goes on with the item
  (\<open>Returns (Inr existingItem)\<close>).
\<close>

datatype 'r outcome = Panics | Returns 'r

definition update_Name :: "string option \<Rightarrow> Item option \<Rightarrow> ('e error + Item option) outcome" where
  "update_Name name existingItem =
     (case name of
        None \<Rightarrow> Returns (Inr existingItem)
      | Some n \<Rightarrow>
          if length n = 0 \<or> length n > 100
          then Returns (Inl (Errorf '''' ErrInvalidInput '': name must be between 1 and 100 characters''))
          else (case existingItem of
                  None \<Rightarrow> Panics
                | Some it \<Rightarrow> Returns (Inr (Some (it\<lparr>Name := n\<rparr>)))))"

definition update_Brand :: "string option \<Rightarrow> Item option \<Rightarrow> ('e error + Item option) outcome" where
  "update_Brand brand existingItem =
     (case brand of
        None \<Rightarrow> Returns (Inr existingItem)
      | Some b \<Rightarrow>
          if length b = 0 \<or> length b > 100
          then Returns (Inl (Errorf '''' ErrInvalidInput '': brand must be between 1 and 100 characters''))
          else (case existingItem of
                  None \<Rightarrow> Panics
                | Some it \<Rightarrow> Returns (Inr (Some (it\<lparr>Brand := b\<rparr>)))))"

definition update_PurchasePrice ::
  "go_int option \<Rightarrow> Item option \<Rightarrow> ('e error + Item option) outcome" where
  "update_PurchasePrice price existingItem =
     (case price of
        None \<Rightarrow> Returns (Inr existingItem)
      | Some p \<Rightarrow>
          if sint p < 0
          then Returns (Inl (Errorf '''' ErrInvalidInput '': purchase_price must be 0 or greater''))
          else (case existingItem of
                  None \<Rightarrow> Panics
                | Some it \<Rightarrow> Returns (Inr (Some (it\<lparr>PurchasePrice := p\<rparr>)))))"

text \<open>Step 2 of \<^verbatim>\<open>UpdateItem\<close>: the three blocks in the order of the source.\<close>

definition update_fields :: "UpdateItemInput \<Rightarrow> Item option \<Rightarrow> ('e error + Item option) outcome" where
  "update_fields input existingItem =
     (case update_Name (upd_Name input) existingItem of
        Returns (Inr item1) \<Rightarrow>
          (case update_Brand (upd_Brand input) item1 of
             Returns (Inr item2) \<Rightarrow> update_PurchasePrice (upd_PurchasePrice input) item2
           | stop \<Rightarrow> stop)
      | stop \<Rightarrow> stop)"

definition UpdateItem ::
  "('e error \<Rightarrow> bool) \<Rightarrow> ('s, 'e) itemUsecase \<Rightarrow> int64 \<Rightarrow> UpdateItemInput \<Rightarrow> 's
     \<Rightarrow> ('e error + Item option) outcome \<times> 's \<times> call list" where
  "UpdateItem IsNotFoundError u item_id input s =
     (if sint item_id \<le> 0 then (Returns (Inl ErrInvalidInput), s, [])
      else case FindByID (itemRepo u) item_id s of
        (Inl err, s1) \<Rightarrow>
          if IsNotFoundError err then (Returns (Inl ErrItemNotFound), s1, [Call_FindByID item_id])
          else (Returns (Inl (Errorf ''failed to retrieve item for update: '' err '''')), s1,
                [Call_FindByID item_id])
      | (Inr existingItem, s1) \<Rightarrow>
          (case update_fields input existingItem of
             Panics \<Rightarrow> (Panics, s1, [Call_FindByID item_id])
           | Returns (Inl err) \<Rightarrow> (Returns (Inl err), s1, [Call_FindByID item_id])
           | Returns (Inr item) \<Rightarrow>
               (case Update (itemRepo u) item s1 of
                  (Inl err, s2) \<Rightarrow>
                    (Returns (Inl (Errorf ''failed to update item: '' err '''')), s2,
                     [Call_FindByID item_id, Call_Update item])
                | (Inr updatedItem, s2) \<Rightarrow>
                    (Returns (Inr updatedItem), s2, [Call_FindByID item_id, Call_Update item]))))"

definition DeleteItem ::
  "('e error \<Rightarrow> bool) \<Rightarrow> ('s, 'e) itemUsecase \<Rightarrow> int64 \<Rightarrow> 's
     \<Rightarrow> 'e error option \<times> 's \<times> call list" where
  "DeleteItem IsNotFoundError u item_id s =
     (if sint item_id \<le> 0 then (Some ErrInvalidInput, s, [])
      else case FindByID (itemRepo u) item_id s of
        (Inl err, s1) \<Rightarrow>
          if IsNotFoundError err then (Some ErrItemNotFound, s1, [Call_FindByID item_id])
          else (Some (Errorf ''failed to check item existence: '' err ''''), s1,
                [Call_FindByID item_id])
      | (Inr item, s1) \<Rightarrow>
          (case Delete (itemRepo u) item_id s1 of
             (Some err, s2) \<Rightarrow>
               (Some (Errorf ''failed to delete item: '' err ''''), s2,
                [Call_FindByID item_id, Call_Delete item_id])
           | (None, s2) \<Rightarrow> (None, s2, [Call_FindByID item_id, Call_Delete item_id])))"

text \<open>
  The two loops of \<^verbatim>\<open>GetCategorySummary\<close>. \<^verbatim>\<open>entity.GetValidCategories\<close> is outside the
  sources: the slice it returns is the parameter \<open>GetValidCategories\<close>.
\<close>

definition sum_counts :: "(string \<times> go_int) list \<Rightarrow> go_int" where
  "sum_counts categoryCounts = fold (\<lambda>(category, count) total. total + count) categoryCounts 0"

definition fill_summary :: "string list \<Rightarrow> (string \<times> go_int) list \<Rightarrow> (string \<rightharpoonup> go_int)" where
  "fill_summary validCategories categoryCounts =
     fold (\<lambda>category summary.
             case map_of categoryCounts category of
               Some count \<Rightarrow> summary(category \<mapsto> count)
             | None \<Rightarrow> summary(category \<mapsto> 0))
          validCategories Map.empty"

definition GetCategorySummary ::
  "string list \<Rightarrow> ('s, 'e) itemUsecase \<Rightarrow> 's \<Rightarrow> ('e error + CategorySummary) \<times> 's \<times> call list" where
  "GetCategorySummary GetValidCategories u s =
     (case GetSummaryByCategory (itemRepo u) s of
        (Inl err, s1) \<Rightarrow>
          (Inl (Errorf ''failed to get category summary: '' err ''''), s1,
           [Call_GetSummaryByCategory])
      | (Inr categoryCounts, s1) \<Rightarrow>
          (Inr \<lparr>Categories = fill_summary GetValidCategories categoryCounts,
                Total = sum_counts categoryCounts\<rparr>, s1, [Call_GetSummaryByCategory]))"

subsection \<open>A repository held in memory\<close>

text \<open>
  Modelled from the spec: no implementation of \<^verbatim>\<open>ItemRepository\<close> is part of the
  sources. \<open>memRepo notFound\<close> keeps the items in a list, one per id, and answers a
  missing id with the error \<open>notFound\<close>; \<open>is_error notFound\<close> is the predicate that
  recognises that signal, also when it is wrapped.
\<close>

definition has_ID :: "int64 \<Rightarrow> Item \<Rightarrow> bool" where
  "has_ID item_id it = (ID it = item_id)"

definition count_category :: "Item list \<Rightarrow> string \<Rightarrow> string \<times> go_int" where
  "count_category s c = (c, word_of_nat (length (filter (\<lambda>it. Category it = c) s)))"

definition memRepo :: "'e error \<Rightarrow> (Item list, 'e) ItemRepository" where
  "memRepo notFound =
     \<lparr>FindAll = (\<lambda>s. (Inr (map Some s), s)),
      FindByID = (\<lambda>item_id s.
         case find (has_ID item_id) s of
           None \<Rightarrow> (Inl notFound, s)
         | Some it \<Rightarrow> (Inr (Some it), s)),
      Create = (\<lambda>item s.
         case item of
           None \<Rightarrow> (Inl ErrInvalidInput, s)
         | Some it \<Rightarrow>
             (let created = it\<lparr>ID := fold max (map ID s) 0 + 1\<rparr>
              in (Inr (Some created), s @ [created]))),
      Update = (\<lambda>item s.
         case item of
           None \<Rightarrow> (Inl ErrInvalidInput, s)
         | Some it \<Rightarrow>
             (case find (has_ID (ID it)) s of
                None \<Rightarrow> (Inl notFound, s)
              | Some old \<Rightarrow> (Inr (Some it), map (\<lambda>x. if has_ID (ID it) x then it else x) s))),
      Delete = (\<lambda>item_id s.
         case find (has_ID item_id) s of
           None \<Rightarrow> (Some notFound, s)
         | Some it \<Rightarrow> (None, filter (\<lambda>x. \<not> has_ID item_id x) s)),
      GetSummaryByCategory = (\<lambda>s. (Inr (map (count_category s) (remdups (map Category s))), s))\<rparr>"

definition is_error :: "'e error \<Rightarrow> 'e error \<Rightarrow> bool" where
  "is_error notFound err = errors_Is err notFound"

text \<open>
  The race of section 5 of the specification, as a repository: right after a lookup
  another caller deletes the item that was looked up.
\<close>

definition racyRepo :: "'e error \<Rightarrow> (Item list, 'e) ItemRepository" where
  "racyRepo notFound =
     (memRepo notFound)
       \<lparr>FindByID := (\<lambda>item_id s.
          (fst (FindByID (memRepo notFound) item_id s), filter (\<lambda>x. \<not> has_ID item_id x) s))\<rparr>"

definition sample_item :: "int64 \<Rightarrow> string \<Rightarrow> Item" where
  "sample_item item_id category =
     \<lparr>ID = item_id, Name = ''Rolex'', Category = category, Brand = ''ROLEX'',
      PurchasePrice = 1500000, PurchaseDate = ''2023-01-15'', CreatedAt = 0, UpdatedAt = 0\<rparr>"

subsection \<open>Characters and bytes\<close>

text \<open>
  The characters of a string, as opposed to its bytes: the code points of its UTF-8
  encoding, one for each byte that is not a continuation byte \<^verbatim>\<open>10xxxxxx\<close> (on
  well-formed UTF-8 this is Go's \<^verbatim>\<open>utf8.RuneCountInString\<close>). \<open>e_acute n\<close> is the
  letter e with an acute accent, two bytes in UTF-8, written \<open>n\<close> times.
\<close>

definition is_continuation_byte :: "char \<Rightarrow> bool" where
  "is_continuation_byte c = ((of_char c :: nat) div 64 = 2)"

definition RuneCountInString :: "string \<Rightarrow> nat" where
  "RuneCountInString str = length (filter (\<lambda>c. \<not> is_continuation_byte c) str)"

definition e_acute :: "nat \<Rightarrow> string" where
  "e_acute n = concat (replicate n [CHR 0xC3, CHR 0xA9])"

subsection \<open>A constructor and a store that is down\<close>

text \<open>
  Modelled from the spec: \<^verbatim>\<open>entity.NewItem\<close> is outside the sources. \<open>specNewItem\<close> has
  the rules of section 3 of the specification for the name, the category, the brand and
  the price, in that order, given the valid categories; the reasons are its own.
\<close>

definition specNewItem ::
  "string list \<Rightarrow> string \<Rightarrow> string \<Rightarrow> string \<Rightarrow> go_int \<Rightarrow> string \<Rightarrow> string + Item option" where
  "specNewItem validCategories name category brand price date =
     (if length name = 0 \<or> length name > 100 then Inl ''name must be 1 to 100 characters''
      else if category \<notin> set validCategories then Inl ''category is not valid''
      else if length brand = 0 \<or> length brand > 100 then Inl ''brand must be 1 to 100 characters''
      else if sint price < 0 then Inl ''purchase_price must be 0 or greater''
      else Inr (Some \<lparr>ID = 0, Name = name, Category = category, Brand = brand,
                      PurchasePrice = price, PurchaseDate = date,
                      CreatedAt = 0, UpdatedAt = 0\<rparr>))"

text \<open>A repository whose store cannot be reached: every method fails with \<open>err\<close>.\<close>

definition downRepo :: "'e error \<Rightarrow> ('s, 'e) ItemRepository" where
  "downRepo err =
     \<lparr>FindAll = (\<lambda>s. (Inl err, s)),
      FindByID = (\<lambda>item_id s. (Inl err, s)),
      Create = (\<lambda>item s. (Inl err, s)),
      Update = (\<lambda>item s. (Inl err, s)),
      Delete = (\<lambda>item_id s. (Some err, s)),
      GetSummaryByCategory = (\<lambda>s. (Inl err, s))\<rparr>"

subsection \<open>Repositories that behave as a map\<close>

text \<open>
  A repository behaves as a map from ids to items when some reading \<open>items\<close> of its
  state as such a map explains its lookups and deletions: \<^verbatim>\<open>FindByID\<close> returns the item
  the map has for the id, or a not-found error when it has none, and leaves the map as
  it is; \<^verbatim>\<open>Delete\<close> of an id the map has succeeds and removes that id from the map.
\<close>

definition behaves_as_map ::
  "('e error \<Rightarrow> bool) \<Rightarrow> ('s, 'e) ItemRepository \<Rightarrow> ('s \<Rightarrow> int64 \<rightharpoonup> Item) \<Rightarrow> bool" where
  "behaves_as_map IsNotFoundError r items =
     (\<forall>s item_id.
        (case FindByID r item_id s of
           (Inl err, s1) \<Rightarrow> items s item_id = None \<and> IsNotFoundError err \<and> items s1 = items s
         | (Inr item, s1) \<Rightarrow> item \<noteq> None \<and> items s item_id = item \<and> items s1 = items s)
      \<and> (items s item_id \<noteq> None \<longrightarrow>
           (case Delete r item_id s of
              (err, s1) \<Rightarrow> err = None \<and> items s1 = (items s)(item_id := None))))"

section \<open>Properties\<close>

subsection \<open>The two loops of the category summary\<close>

lemma fold_add_counts:
  "fold (\<lambda>(category, count) total. total + count) xs acc = acc + sum_list (map snd xs)"
  by (induction xs arbitrary: acc) (auto simp: add.assoc)

lemma sum_counts_sum_list: "sum_counts xs = sum_list (map snd xs)"
  by (simp add: sum_counts_def fold_add_counts)

lemma sum_list_map_of:
  "distinct (map fst xs) \<Longrightarrow> sum_list (map snd xs) = (\<Sum>k\<in>dom (map_of xs). the (map_of xs k))"
proof (induction xs)
  case Nil
  then show ?case by simp
next
  case (Cons x xs)
  obtain k v where x: "x = (k, v)" by (cases x)
  from Cons.prems x have k: "k \<notin> dom (map_of xs)" and d: "distinct (map fst xs)"
    by (auto simp: dom_map_of_conv_image_fst)
  have fin: "finite (dom (map_of xs))" by (simp add: finite_dom_map_of)
  have m: "map_of (x # xs) = (map_of xs)(k \<mapsto> v)" using x by simp
  have "(\<Sum>j\<in>dom (map_of (x # xs)). the (map_of (x # xs) j))
        = (\<Sum>j\<in>insert k (dom (map_of xs)). the (((map_of xs)(k \<mapsto> v)) j))"
    unfolding m by simp
  also have "\<dots> = v + (\<Sum>j\<in>dom (map_of xs). the (((map_of xs)(k \<mapsto> v)) j))"
    using k fin by simp
  also have "(\<Sum>j\<in>dom (map_of xs). the (((map_of xs)(k \<mapsto> v)) j))
        = (\<Sum>j\<in>dom (map_of xs). the (map_of xs j))"
    using k by (intro sum.cong) auto
  finally show ?case using Cons.IH [OF d] x by simp
qed

lemma fold_fill:
  "fold (\<lambda>category summary.
             case map_of cc category of
               Some count \<Rightarrow> summary(category \<mapsto> count)
             | None \<Rightarrow> summary(category \<mapsto> 0)) vs m c
   = (if c \<in> set vs then Some (case map_of cc c of Some n \<Rightarrow> n | None \<Rightarrow> 0) else m c)"
  by (induction vs arbitrary: m) (auto split: option.splits)

lemma fill_summary_apply:
  "fill_summary vs cc c =
     (if c \<in> set vs then Some (case map_of cc c of Some n \<Rightarrow> n | None \<Rightarrow> 0) else None)"
  by (simp add: fill_summary_def fold_fill)

lemma dom_fill_summary: "dom (fill_summary vs cc) = set vs"
  by (auto simp: fill_summary_apply dom_def)

lemma word_of_int_sum_list_sint:
  "word_of_int (sum_list (map sint ws)) = (sum_list ws :: 64 word)"
  by (induction ws) simp_all

lemma sint_sum_list:
  "sint (sum_list ws :: 64 word) = signed_take_bit 63 (sum_list (map sint ws))"
proof -
  have "sint (sum_list ws :: 64 word) = sint (word_of_int (sum_list (map sint ws)) :: 64 word)"
    by (simp only: word_of_int_sum_list_sint)
  also have "\<dots> = signed_take_bit 63 (sum_list (map sint ws))"
    by (simp add: sint_sbintrunc')
  finally show ?thesis .
qed

lemma sint_sum_list_exact:
  "- (2 ^ 63) \<le> sum_list (map sint ws) \<Longrightarrow> sum_list (map sint ws) < 2 ^ 63
   \<Longrightarrow> sint (sum_list ws :: 64 word) = sum_list (map sint ws)"
  by (simp add: sint_sum_list signed_take_bit_int_eq_self)

subsection \<open>GetCategorySummary\<close>

text \<open>
  C1. Whatever mapping the repository's \<^verbatim>\<open>GetSummaryByCategory\<close> returns,
  \<^verbatim>\<open>GetCategorySummary\<close> returns a \<^verbatim>\<open>Categories\<close> mapping whose keys are exactly the
  valid categories, each with the repository's count when it has one and with 0
  otherwise, and a \<^verbatim>\<open>Total\<close> that is the sum of all the counts of the repository's
  mapping, those of categories outside the valid set included. The sum is that of Go's
  \<^verbatim>\<open>int\<close>; it is the sum of the counts as integers whenever that sum fits in 64 bits.
\<close>

theorem GetCategorySummary_zero_filled_total:
  assumes repo: "GetSummaryByCategory (itemRepo u) s = (Inr categoryCounts, s1)"
      and keys: "distinct (map fst categoryCounts)"
  shows "\<exists>summary.
           GetCategorySummary validCategories u s = (Inr summary, s1, [Call_GetSummaryByCategory])
         \<and> dom (Categories summary) = set validCategories
         \<and> (\<forall>c\<in>set validCategories.
              Categories summary c
                = Some (case map_of categoryCounts c of Some n \<Rightarrow> n | None \<Rightarrow> 0))
         \<and> Total summary = (\<Sum>c\<in>dom (map_of categoryCounts). the (map_of categoryCounts c))
         \<and> (- (2 ^ 63) \<le> (\<Sum>n\<leftarrow>map snd categoryCounts. sint n)
              \<and> (\<Sum>n\<leftarrow>map snd categoryCounts. sint n) < 2 ^ 63
            \<longrightarrow> sint (Total summary) = (\<Sum>n\<leftarrow>map snd categoryCounts. sint n))"
proof -
  let ?summary = "\<lparr>Categories = fill_summary validCategories categoryCounts,
                   Total = sum_counts categoryCounts\<rparr>"
  have run: "GetCategorySummary validCategories u s = (Inr ?summary, s1, [Call_GetSummaryByCategory])"
    using repo by (simp add: GetCategorySummary_def)
  have total: "Total ?summary = (\<Sum>c\<in>dom (map_of categoryCounts). the (map_of categoryCounts c))"
    using sum_list_map_of [OF keys] by (simp add: sum_counts_sum_list)
  have exact: "- (2 ^ 63) \<le> (\<Sum>n\<leftarrow>map snd categoryCounts. sint n)
              \<and> (\<Sum>n\<leftarrow>map snd categoryCounts. sint n) < 2 ^ 63
            \<longrightarrow> sint (Total ?summary) = (\<Sum>n\<leftarrow>map snd categoryCounts. sint n)"
    using sint_sum_list_exact [of "map snd categoryCounts"] by (simp add: sum_counts_sum_list)
  have cats: "\<forall>c\<in>set validCategories.
              Categories ?summary c
                = Some (case map_of categoryCounts c of Some n \<Rightarrow> n | None \<Rightarrow> 0)"
    by (simp add: fill_summary_apply)
  have d: "dom (Categories ?summary) = set validCategories" by (simp add: dom_fill_summary)
  from run d cats total exact show ?thesis by blast
qed

theorem GetCategorySummary_zero_filled_total_witness:
  "\<exists>summary.
     GetCategorySummary [''electronics'', ''clothing'']
       (NewItemUsecase (memRepo (ErrItemNotFound :: unit error)))
       [sample_item 1 ''electronics'', sample_item 2 ''electronics'',
        sample_item 3 ''electronics'']
     = (Inr summary,
        [sample_item 1 ''electronics'', sample_item 2 ''electronics'',
         sample_item 3 ''electronics''],
        [Call_GetSummaryByCategory])
   \<and> dom (Categories summary) = {''electronics'', ''clothing''}
   \<and> Categories summary ''electronics'' = Some 3
   \<and> Categories summary ''clothing'' = Some 0
   \<and> Total summary = 3 \<and> sint (Total summary) = 3"
proof -
  have repo: "GetSummaryByCategory (itemRepo (NewItemUsecase (memRepo (ErrItemNotFound :: unit error))))
            [sample_item 1 ''electronics'', sample_item 2 ''electronics'',
             sample_item 3 ''electronics'']
          = (Inr [(''electronics'', 3)],
             [sample_item 1 ''electronics'', sample_item 2 ''electronics'',
              sample_item 3 ''electronics''])"
    by (simp add: NewItemUsecase_def memRepo_def count_category_def sample_item_def)
  have keys: "distinct (map fst [(''electronics'', 3 :: go_int)])" by simp
  from GetCategorySummary_zero_filled_total [OF repo keys, of "[''electronics'', ''clothing'']"]
  obtain summary where
      run: "GetCategorySummary [''electronics'', ''clothing'']
              (NewItemUsecase (memRepo (ErrItemNotFound :: unit error)))
              [sample_item 1 ''electronics'', sample_item 2 ''electronics'',
               sample_item 3 ''electronics'']
            = (Inr summary,
               [sample_item 1 ''electronics'', sample_item 2 ''electronics'',
                sample_item 3 ''electronics''],
               [Call_GetSummaryByCategory])"
    and d: "dom (Categories summary) = set [''electronics'', ''clothing'']"
    and c: "\<forall>c\<in>set [''electronics'', ''clothing''].
              Categories summary c
                = Some (case map_of [(''electronics'', 3 :: go_int)] c of Some n \<Rightarrow> n | None \<Rightarrow> 0)"
    and t: "Total summary = (\<Sum>c\<in>dom (map_of [(''electronics'', 3 :: go_int)]).
                               the (map_of [(''electronics'', 3 :: go_int)] c))"
    and e: "- (2 ^ 63) \<le> (\<Sum>n\<leftarrow>map snd [(''electronics'', 3 :: go_int)]. sint n)
              \<and> (\<Sum>n\<leftarrow>map snd [(''electronics'', 3 :: go_int)]. sint n) < 2 ^ 63
            \<longrightarrow> sint (Total summary) = (\<Sum>n\<leftarrow>map snd [(''electronics'', 3 :: go_int)]. sint n)"
    by blast
  from d have d': "dom (Categories summary) = {''electronics'', ''clothing''}" by simp
  from c have c1: "Categories summary ''electronics'' = Some 3"
    and c2: "Categories summary ''clothing'' = Some 0" by simp_all
  from t have t': "Total summary = 3" by simp
  from e have e': "sint (Total summary) = 3" by simp
  from run d' c1 c2 t' e' show ?thesis by blast
qed


lemma sum_fill_summary:
  assumes keys: "distinct (map fst cc)" and sub: "fst ` set cc \<subseteq> set vs"
  shows "(\<Sum>c\<in>dom (fill_summary vs cc). the (fill_summary vs cc c)) = sum_list (map snd cc)"
proof -
  let ?f = "\<lambda>c. case map_of cc c of Some n \<Rightarrow> n | None \<Rightarrow> (0 :: go_int)"
  have "(\<Sum>c\<in>dom (fill_summary vs cc). the (fill_summary vs cc c)) = (\<Sum>c\<in>set vs. ?f c)"
    unfolding dom_fill_summary by (intro sum.cong) (simp_all add: fill_summary_apply)
  also have "\<dots> = (\<Sum>c\<in>dom (map_of cc). ?f c)"
  proof (rule sum.mono_neutral_right)
    show "finite (set vs)" by simp
    show "dom (map_of cc) \<subseteq> set vs" using sub by (simp add: dom_map_of_conv_image_fst)
    show "\<forall>i\<in>set vs - dom (map_of cc). ?f i = 0" by (auto simp: domIff)
  qed
  also have "\<dots> = (\<Sum>c\<in>dom (map_of cc). the (map_of cc c))"
    by (intro sum.cong) auto
  also have "\<dots> = sum_list (map snd cc)"
    using sum_list_map_of [OF keys] by simp
  finally show ?thesis .
qed

lemma sum_fill_summary_outside:
  assumes "c \<notin> set vs"
  shows "(\<Sum>k\<in>dom (fill_summary vs [(c, n)]). the (fill_summary vs [(c, n)] k)) = 0"
  unfolding dom_fill_summary using assms
  by (intro sum.neutral) (auto simp: fill_summary_apply)

text \<open>
  C2. Some result of \<^verbatim>\<open>GetSummaryByCategory\<close> with a category outside the valid set and
  a positive count makes \<^verbatim>\<open>Total\<close> strictly greater than the sum of the values of the
  returned \<^verbatim>\<open>Categories\<close>: a category outside the valid set exists, and the result
  with that category alone, counted once, does it. For every result whose keys are all
  valid categories, \<^verbatim>\<open>Total\<close> equals that sum.
\<close>

theorem GetCategorySummary_total_vs_categories:
  "(\<exists>c. c \<notin> set validCategories)
   \<and> (\<forall>c u s s1.
         c \<notin> set validCategories
         \<and> GetSummaryByCategory (itemRepo u) s = (Inr [(c, 1)], s1)
         \<longrightarrow> (\<exists>summary.
                GetCategorySummary validCategories u s
                  = (Inr summary, s1, [Call_GetSummaryByCategory])
              \<and> sint (\<Sum>k\<in>dom (Categories summary). the (Categories summary k))
                  < sint (Total summary)))
   \<and> (\<forall>categoryCounts u s s1.
         distinct (map fst categoryCounts)
         \<and> fst ` set categoryCounts \<subseteq> set validCategories
         \<and> GetSummaryByCategory (itemRepo u) s = (Inr categoryCounts, s1)
         \<longrightarrow> (\<exists>summary.
                GetCategorySummary validCategories u s
                  = (Inr summary, s1, [Call_GetSummaryByCategory])
              \<and> Total summary = (\<Sum>k\<in>dom (Categories summary). the (Categories summary k))))"
proof (intro conjI allI impI)
  have "infinite (UNIV :: string set)" by (rule infinite_UNIV_listI)
  then show "\<exists>c. c \<notin> set validCategories"
    by (rule ex_new_if_finite) simp
next
  fix c and u :: "('a, 'b) itemUsecase" and s s1
  assume h: "c \<notin> set validCategories
             \<and> GetSummaryByCategory (itemRepo u) s = (Inr [(c, 1)], s1)"
  then show "\<exists>summary.
                GetCategorySummary validCategories u s
                  = (Inr summary, s1, [Call_GetSummaryByCategory])
              \<and> sint (\<Sum>k\<in>dom (Categories summary). the (Categories summary k))
                  < sint (Total summary)"
    by (simp add: GetCategorySummary_def sum_fill_summary_outside sum_counts_sum_list)
next
  fix categoryCounts and u :: "('c, 'd) itemUsecase" and s s1
  assume h: "distinct (map fst categoryCounts)
         \<and> fst ` set categoryCounts \<subseteq> set validCategories
         \<and> GetSummaryByCategory (itemRepo u) s = (Inr categoryCounts, s1)"
  then show "\<exists>summary.
                GetCategorySummary validCategories u s
                  = (Inr summary, s1, [Call_GetSummaryByCategory])
              \<and> Total summary = (\<Sum>k\<in>dom (Categories summary). the (Categories summary k))"
    by (simp add: GetCategorySummary_def sum_fill_summary sum_counts_sum_list)
qed

theorem GetCategorySummary_total_vs_categories_witness:
  "(\<exists>summary.
      GetCategorySummary [''electronics'', ''clothing'']
        (NewItemUsecase (memRepo (ErrItemNotFound :: unit error)))
        [sample_item 1 ''furniture'']
      = (Inr summary, [sample_item 1 ''furniture''], [Call_GetSummaryByCategory])
    \<and> sint (\<Sum>k\<in>dom (Categories summary). the (Categories summary k)) < sint (Total summary))
   \<and> (\<exists>summary.
      GetCategorySummary [''electronics'', ''clothing'']
        (NewItemUsecase (memRepo (ErrItemNotFound :: unit error)))
        [sample_item 1 ''clothing'']
      = (Inr summary, [sample_item 1 ''clothing''], [Call_GetSummaryByCategory])
    \<and> Total summary = (\<Sum>k\<in>dom (Categories summary). the (Categories summary k)))"
proof -
  let ?u = "NewItemUsecase (memRepo (ErrItemNotFound :: unit error))"
  note inst = GetCategorySummary_total_vs_categories
               [where validCategories = "[''electronics'', ''clothing'']"]
  have out: "''furniture'' \<notin> set [''electronics'', ''clothing'']" by simp
  have r1: "GetSummaryByCategory (itemRepo ?u) [sample_item 1 ''furniture'']
            = (Inr [(''furniture'', 1)], [sample_item 1 ''furniture''])"
    by (simp add: NewItemUsecase_def memRepo_def count_category_def sample_item_def)
  have r2: "GetSummaryByCategory (itemRepo ?u) [sample_item 1 ''clothing'']
            = (Inr [(''clothing'', 1)], [sample_item 1 ''clothing''])"
    by (simp add: NewItemUsecase_def memRepo_def count_category_def sample_item_def)
  have k2: "distinct (map fst [(''clothing'', 1 :: go_int)])
            \<and> fst ` set [(''clothing'', 1 :: go_int)] \<subseteq> set [''electronics'', ''clothing'']"
    by simp
  from inst have partA: "\<forall>c (u :: (Item list, unit) itemUsecase) s s1.
         c \<notin> set [''electronics'', ''clothing'']
         \<and> GetSummaryByCategory (itemRepo u) s = (Inr [(c, 1)], s1)
         \<longrightarrow> (\<exists>summary.
                GetCategorySummary [''electronics'', ''clothing''] u s
                  = (Inr summary, s1, [Call_GetSummaryByCategory])
              \<and> sint (\<Sum>k\<in>dom (Categories summary). the (Categories summary k))
                  < sint (Total summary))"
    by (elim conjE)
  from inst have partB: "\<forall>categoryCounts (u :: (Item list, unit) itemUsecase) s s1.
         distinct (map fst categoryCounts)
         \<and> fst ` set categoryCounts \<subseteq> set [''electronics'', ''clothing'']
         \<and> GetSummaryByCategory (itemRepo u) s = (Inr categoryCounts, s1)
         \<longrightarrow> (\<exists>summary.
                GetCategorySummary [''electronics'', ''clothing''] u s
                  = (Inr summary, s1, [Call_GetSummaryByCategory])
              \<and> Total summary = (\<Sum>k\<in>dom (Categories summary). the (Categories summary k)))"
    by (elim conjE)
  have a: "\<exists>summary.
      GetCategorySummary [''electronics'', ''clothing''] ?u [sample_item 1 ''furniture'']
      = (Inr summary, [sample_item 1 ''furniture''], [Call_GetSummaryByCategory])
    \<and> sint (\<Sum>k\<in>dom (Categories summary). the (Categories summary k)) < sint (Total summary)"
    using partA [rule_format, OF conjI, OF out r1] .
  have b: "\<exists>summary.
      GetCategorySummary [''electronics'', ''clothing''] ?u [sample_item 1 ''clothing'']
      = (Inr summary, [sample_item 1 ''clothing''], [Call_GetSummaryByCategory])
    \<and> Total summary = (\<Sum>k\<in>dom (Categories summary). the (Categories summary k))"
    using partB [rule_format, OF conjI, OF conjunct1 [OF k2] conjI, OF conjunct2 [OF k2] r2] .
  from a b show ?thesis by (rule conjI)
qed

subsection \<open>Identifiers that are not positive\<close>

text \<open>
  C4. For every id \<open>\<le> 0\<close>, each of \<^verbatim>\<open>GetItemByID\<close>, \<^verbatim>\<open>UpdateItem\<close> and \<^verbatim>\<open>DeleteItem\<close>
  returns \<^verbatim>\<open>ErrInvalidInput\<close> and makes no repository call at all (the list of calls is
  empty, so \<^verbatim>\<open>FindByID\<close> is not invoked, and the repository's state is the one before).
\<close>

theorem nonpositive_id_is_InvalidInput_without_repository_call:
  assumes "sint item_id \<le> 0"
  shows "GetItemByID IsNotFoundError u item_id s = (Inl ErrInvalidInput, s, [])
       \<and> UpdateItem IsNotFoundError u item_id input s = (Returns (Inl ErrInvalidInput), s, [])
       \<and> DeleteItem IsNotFoundError u item_id s = (Some ErrInvalidInput, s, [])"
  using assms by (simp add: GetItemByID_def UpdateItem_def DeleteItem_def)

theorem nonpositive_id_is_InvalidInput_without_repository_call_witness:
  "sint (- 5 :: int64) \<le> 0
   \<and> GetItemByID (is_error ErrItemNotFound) (NewItemUsecase (memRepo (ErrItemNotFound :: unit error)))
         (- 5) [sample_item 1 ''clothing'']
       = (Inl ErrInvalidInput, [sample_item 1 ''clothing''], [])
   \<and> UpdateItem (is_error ErrItemNotFound) (NewItemUsecase (memRepo (ErrItemNotFound :: unit error)))
         (- 5) \<lparr>upd_Name = Some ''Omega'', upd_Brand = None, upd_PurchasePrice = None\<rparr>
         [sample_item 1 ''clothing'']
       = (Returns (Inl ErrInvalidInput), [sample_item 1 ''clothing''], [])
   \<and> DeleteItem (is_error ErrItemNotFound) (NewItemUsecase (memRepo (ErrItemNotFound :: unit error)))
         (- 5) [sample_item 1 ''clothing'']
       = (Some ErrInvalidInput, [sample_item 1 ''clothing''], [])"
proof -
  have neg: "sint (- 5 :: int64) \<le> 0" by simp
  from neg nonpositive_id_is_InvalidInput_without_repository_call [OF neg]
  show ?thesis by simp
qed

subsection \<open>The existence lookup\<close>

lemma update_fields_error:
  "update_fields input existingItem = Returns (Inl err) \<Longrightarrow>
     err = Errorf '''' ErrInvalidInput '': name must be between 1 and 100 characters''
   \<or> err = Errorf '''' ErrInvalidInput '': brand must be between 1 and 100 characters''
   \<or> err = Errorf '''' ErrInvalidInput '': purchase_price must be 0 or greater''"
  by (auto simp: update_fields_def update_Name_def update_Brand_def update_PurchasePrice_def
           split: option.splits if_splits outcome.splits sum.splits)

lemma update_fields_not_ErrItemNotFound:
  "update_fields input existingItem \<noteq> Returns (Inl ErrItemNotFound)"
  using update_fields_error [of input existingItem ErrItemNotFound] by auto

lemma GetItemByID_lookup_failed:
  "0 < sint item_id \<Longrightarrow> FindByID (itemRepo u) item_id s = (Inl err, s1) \<Longrightarrow>
   GetItemByID IsNotFoundError u item_id s =
     (Inl (if IsNotFoundError err then ErrItemNotFound
           else Errorf ''failed to retrieve item: '' err ''''), s1, [Call_FindByID item_id])"
  by (simp add: GetItemByID_def)

lemma GetItemByID_lookup_ok:
  "0 < sint item_id \<Longrightarrow> FindByID (itemRepo u) item_id s = (Inr item, s1) \<Longrightarrow>
   GetItemByID IsNotFoundError u item_id s = (Inr item, s1, [Call_FindByID item_id])"
  by (simp add: GetItemByID_def)

lemma UpdateItem_lookup_failed:
  "0 < sint item_id \<Longrightarrow> FindByID (itemRepo u) item_id s = (Inl err, s1) \<Longrightarrow>
   UpdateItem IsNotFoundError u item_id input s =
     (Returns (Inl (if IsNotFoundError err then ErrItemNotFound
                    else Errorf ''failed to retrieve item for update: '' err '''')), s1,
      [Call_FindByID item_id])"
  by (simp add: UpdateItem_def)

lemma UpdateItem_lookup_ok:
  "0 < sint item_id \<Longrightarrow> FindByID (itemRepo u) item_id s = (Inr existingItem, s1) \<Longrightarrow>
   UpdateItem IsNotFoundError u item_id input s =
     (case update_fields input existingItem of
        Panics \<Rightarrow> (Panics, s1, [Call_FindByID item_id])
      | Returns (Inl err) \<Rightarrow> (Returns (Inl err), s1, [Call_FindByID item_id])
      | Returns (Inr item) \<Rightarrow>
          (case Update (itemRepo u) item s1 of
             (Inl err, s2) \<Rightarrow>
               (Returns (Inl (Errorf ''failed to update item: '' err '''')), s2,
                [Call_FindByID item_id, Call_Update item])
           | (Inr updatedItem, s2) \<Rightarrow>
               (Returns (Inr updatedItem), s2, [Call_FindByID item_id, Call_Update item])))"
  by (simp add: UpdateItem_def)

lemma UpdateItem_lookup_ok_not_ErrItemNotFound:
  "0 < sint item_id \<Longrightarrow> FindByID (itemRepo u) item_id s = (Inr existingItem, s1) \<Longrightarrow>
   fst (UpdateItem IsNotFoundError u item_id input s) \<noteq> Returns (Inl ErrItemNotFound)"
  using update_fields_not_ErrItemNotFound [of input existingItem]
  by (auto simp: UpdateItem_lookup_ok split: prod.splits sum.splits outcome.splits)

lemma DeleteItem_lookup_failed:
  "0 < sint item_id \<Longrightarrow> FindByID (itemRepo u) item_id s = (Inl err, s1) \<Longrightarrow>
   DeleteItem IsNotFoundError u item_id s =
     (Some (if IsNotFoundError err then ErrItemNotFound
            else Errorf ''failed to check item existence: '' err ''''), s1,
      [Call_FindByID item_id])"
  by (simp add: DeleteItem_def)

lemma DeleteItem_lookup_ok:
  "0 < sint item_id \<Longrightarrow> FindByID (itemRepo u) item_id s = (Inr existingItem, s1) \<Longrightarrow>
   DeleteItem IsNotFoundError u item_id s =
     (case Delete (itemRepo u) item_id s1 of
        (Some err, s2) \<Rightarrow>
          (Some (Errorf ''failed to delete item: '' err ''''), s2,
           [Call_FindByID item_id, Call_Delete item_id])
      | (None, s2) \<Rightarrow> (None, s2, [Call_FindByID item_id, Call_Delete item_id]))"
  by (simp add: DeleteItem_def)

lemma DeleteItem_lookup_ok_not_ErrItemNotFound:
  "0 < sint item_id \<Longrightarrow> FindByID (itemRepo u) item_id s = (Inr existingItem, s1) \<Longrightarrow>
   fst (DeleteItem IsNotFoundError u item_id s) \<noteq> Some ErrItemNotFound"
  by (auto simp: DeleteItem_lookup_ok split: prod.splits option.splits)

lemma sentinel_iff_lookup_not_found:
  assumes pos: "0 < sint item_id"
  shows "(fst (GetItemByID IsNotFoundError u item_id s) = Inl ErrItemNotFound
            \<longleftrightarrow> (\<exists>err. fst (FindByID (itemRepo u) item_id s) = Inl err \<and> IsNotFoundError err))
       \<and> (fst (UpdateItem IsNotFoundError u item_id input s) = Returns (Inl ErrItemNotFound)
            \<longleftrightarrow> (\<exists>err. fst (FindByID (itemRepo u) item_id s) = Inl err \<and> IsNotFoundError err))
       \<and> (fst (DeleteItem IsNotFoundError u item_id s) = Some ErrItemNotFound
            \<longleftrightarrow> (\<exists>err. fst (FindByID (itemRepo u) item_id s) = Inl err \<and> IsNotFoundError err))"
proof -
  obtain r s1 where look: "FindByID (itemRepo u) item_id s = (r, s1)"
    by (cases "FindByID (itemRepo u) item_id s")
  show ?thesis
  proof (cases r)
    case (Inl err)
    with look have l: "FindByID (itemRepo u) item_id s = (Inl err, s1)" by simp
    show ?thesis
      by (simp add: l GetItemByID_lookup_failed [OF pos l] UpdateItem_lookup_failed [OF pos l]
            DeleteItem_lookup_failed [OF pos l])
  next
    case (Inr existingItem)
    with look have l: "FindByID (itemRepo u) item_id s = (Inr existingItem, s1)" by simp
    show ?thesis
      using UpdateItem_lookup_ok_not_ErrItemNotFound [OF pos l, of IsNotFoundError input]
        DeleteItem_lookup_ok_not_ErrItemNotFound [OF pos l, of IsNotFoundError]
      by (simp add: l GetItemByID_lookup_ok [OF pos l])
  qed
qed

lemma update_fields_error_kind:
  "update_fields input existingItem = Returns (Inl err) \<Longrightarrow> \<not> errors_Is err ErrItemNotFound"
  using update_fields_error [of input existingItem err] by auto

lemma UpdateItem_kind_after_lookup:
  fixes u :: "('s, 'e) itemUsecase"
  assumes pos: "0 < sint item_id"
      and l: "FindByID (itemRepo u) item_id s = (Inr existingItem, s1)"
  shows "(\<exists>e. fst (UpdateItem IsNotFoundError u item_id input s) = Returns (Inl e)
              \<and> errors_Is e ErrItemNotFound)
         \<longleftrightarrow> (\<exists>item err s2.
                (update_fields input existingItem :: ('e error + Item option) outcome)
                  = Returns (Inr item)
              \<and> Update (itemRepo u) item s1 = (Inl err, s2)
              \<and> errors_Is err ErrItemNotFound)"
proof (cases "update_fields input existingItem :: ('e error + Item option) outcome")
  case Panics
  then show ?thesis by (simp add: UpdateItem_lookup_ok [OF pos l])
next
  case (Returns x)
  show ?thesis
  proof (cases x)
    case (Inl e)
    with Returns have stop: "(update_fields input existingItem :: ('e error + Item option) outcome)
                               = Returns (Inl e)" by simp
    from update_fields_error_kind [OF stop] stop show ?thesis
      by (simp add: UpdateItem_lookup_ok [OF pos l])
  next
    case (Inr item)
    with Returns have go: "(update_fields input existingItem :: ('e error + Item option) outcome)
                               = Returns (Inr item)" by simp
    obtain r2 s2 where upd: "Update (itemRepo u) item s1 = (r2, s2)"
      by (cases "Update (itemRepo u) item s1")
    show ?thesis
      by (cases r2) (simp_all add: UpdateItem_lookup_ok [OF pos l] go upd)
  qed
qed

lemma DeleteItem_kind_after_lookup:
  fixes u :: "('s, 'e) itemUsecase"
  assumes pos: "0 < sint item_id"
      and l: "FindByID (itemRepo u) item_id s = (Inr existingItem, s1)"
  shows "(\<exists>e. fst (DeleteItem IsNotFoundError u item_id s) = Some e \<and> errors_Is e ErrItemNotFound)
         \<longleftrightarrow> (\<exists>err s2. Delete (itemRepo u) item_id s1 = (Some err, s2)
                       \<and> errors_Is err ErrItemNotFound)"
proof -
  obtain r2 s2 where del: "Delete (itemRepo u) item_id s1 = (r2, s2)"
    by (cases "Delete (itemRepo u) item_id s1")
  show ?thesis
    by (cases r2) (simp_all add: DeleteItem_lookup_ok [OF pos l] del)
qed

text \<open>
  C5, as amended. For every id \<open>> 0\<close>, each of \<^verbatim>\<open>GetItemByID\<close>, \<^verbatim>\<open>UpdateItem\<close> and
  \<^verbatim>\<open>DeleteItem\<close> returns \<^verbatim>\<open>ErrItemNotFound\<close> itself if and only if the repository's
  \<^verbatim>\<open>FindByID\<close> for that id fails with an error that \<^verbatim>\<open>IsNotFoundError\<close> recognises. Any
  other failure of \<^verbatim>\<open>FindByID\<close> is returned wrapped in a message of the operation, and
  the wrapped error is of the kind \<^verbatim>\<open>ErrItemNotFound\<close> (by \<^verbatim>\<open>errors.Is\<close>) only if the
  repository's error is. \<^verbatim>\<open>GetItemByID\<close> returns an error of that kind exactly when
  \<^verbatim>\<open>FindByID\<close> fails with an error that \<^verbatim>\<open>IsNotFoundError\<close> recognises or that is of
  that kind; \<^verbatim>\<open>UpdateItem\<close> and \<^verbatim>\<open>DeleteItem\<close> do so exactly then, or when the lookup
  succeeds and the \<^verbatim>\<open>Update\<close> or \<^verbatim>\<open>Delete\<close> that follows fails with an error of that
  kind, which is returned wrapped.
\<close>

theorem ItemNotFound_from_lookup_or_wrapped_mutation:
  fixes u :: "('s, 'e) itemUsecase"
  assumes pos: "0 < sint item_id"
  shows "(fst (GetItemByID IsNotFoundError u item_id s) = Inl ErrItemNotFound
            \<longleftrightarrow> (\<exists>err. fst (FindByID (itemRepo u) item_id s) = Inl err \<and> IsNotFoundError err))
       \<and> (fst (UpdateItem IsNotFoundError u item_id input s) = Returns (Inl ErrItemNotFound)
            \<longleftrightarrow> (\<exists>err. fst (FindByID (itemRepo u) item_id s) = Inl err \<and> IsNotFoundError err))
       \<and> (fst (DeleteItem IsNotFoundError u item_id s) = Some ErrItemNotFound
            \<longleftrightarrow> (\<exists>err. fst (FindByID (itemRepo u) item_id s) = Inl err \<and> IsNotFoundError err))
       \<and> (\<forall>err. fst (FindByID (itemRepo u) item_id s) = Inl err \<and> \<not> IsNotFoundError err
            \<longrightarrow> fst (GetItemByID IsNotFoundError u item_id s)
                  = Inl (Errorf ''failed to retrieve item: '' err '''')
              \<and> fst (UpdateItem IsNotFoundError u item_id input s)
                  = Returns (Inl (Errorf ''failed to retrieve item for update: '' err ''''))
              \<and> fst (DeleteItem IsNotFoundError u item_id s)
                  = Some (Errorf ''failed to check item existence: '' err '''')
              \<and> (errors_Is (Errorf ''failed to retrieve item: '' err '''') ErrItemNotFound
                    \<longleftrightarrow> errors_Is err ErrItemNotFound)
              \<and> (errors_Is (Errorf ''failed to retrieve item for update: '' err '''')
                      ErrItemNotFound
                    \<longleftrightarrow> errors_Is err ErrItemNotFound)
              \<and> (errors_Is (Errorf ''failed to check item existence: '' err '''')
                      ErrItemNotFound
                    \<longleftrightarrow> errors_Is err ErrItemNotFound))
       \<and> ((\<exists>e. fst (GetItemByID IsNotFoundError u item_id s) = Inl e
                \<and> errors_Is e ErrItemNotFound)
            \<longleftrightarrow> (\<exists>err. fst (FindByID (itemRepo u) item_id s) = Inl err
                      \<and> (IsNotFoundError err \<or> errors_Is err ErrItemNotFound)))
       \<and> ((\<exists>e. fst (UpdateItem IsNotFoundError u item_id input s) = Returns (Inl e)
                \<and> errors_Is e ErrItemNotFound)
            \<longleftrightarrow> (\<exists>err. fst (FindByID (itemRepo u) item_id s) = Inl err
                      \<and> (IsNotFoundError err \<or> errors_Is err ErrItemNotFound))
              \<or> (\<exists>existingItem s1 item err s2.
                    FindByID (itemRepo u) item_id s = (Inr existingItem, s1)
                  \<and> (update_fields input existingItem :: ('e error + Item option) outcome)
                      = Returns (Inr item)
                  \<and> Update (itemRepo u) item s1 = (Inl err, s2)
                  \<and> errors_Is err ErrItemNotFound))
       \<and> ((\<exists>e. fst (DeleteItem IsNotFoundError u item_id s) = Some e
                \<and> errors_Is e ErrItemNotFound)
            \<longleftrightarrow> (\<exists>err. fst (FindByID (itemRepo u) item_id s) = Inl err
                      \<and> (IsNotFoundError err \<or> errors_Is err ErrItemNotFound))
              \<or> (\<exists>existingItem s1 err s2.
                    FindByID (itemRepo u) item_id s = (Inr existingItem, s1)
                  \<and> Delete (itemRepo u) item_id s1 = (Some err, s2)
                  \<and> errors_Is err ErrItemNotFound))"
proof -
  note sentinel = sentinel_iff_lookup_not_found [OF pos, of IsNotFoundError u s input]
  obtain r s1 where look: "FindByID (itemRepo u) item_id s = (r, s1)"
    by (cases "FindByID (itemRepo u) item_id s")
  have rest: "(\<forall>err. fst (FindByID (itemRepo u) item_id s) = Inl err \<and> \<not> IsNotFoundError err
            \<longrightarrow> fst (GetItemByID IsNotFoundError u item_id s)
                  = Inl (Errorf ''failed to retrieve item: '' err '''')
              \<and> fst (UpdateItem IsNotFoundError u item_id input s)
                  = Returns (Inl (Errorf ''failed to retrieve item for update: '' err ''''))
              \<and> fst (DeleteItem IsNotFoundError u item_id s)
                  = Some (Errorf ''failed to check item existence: '' err '''')
              \<and> (errors_Is (Errorf ''failed to retrieve item: '' err '''') ErrItemNotFound
                    \<longleftrightarrow> errors_Is err ErrItemNotFound)
              \<and> (errors_Is (Errorf ''failed to retrieve item for update: '' err '''')
                      ErrItemNotFound
                    \<longleftrightarrow> errors_Is err ErrItemNotFound)
              \<and> (errors_Is (Errorf ''failed to check item existence: '' err '''')
                      ErrItemNotFound
                    \<longleftrightarrow> errors_Is err ErrItemNotFound))
       \<and> ((\<exists>e. fst (GetItemByID IsNotFoundError u item_id s) = Inl e
                \<and> errors_Is e ErrItemNotFound)
            \<longleftrightarrow> (\<exists>err. fst (FindByID (itemRepo u) item_id s) = Inl err
                      \<and> (IsNotFoundError err \<or> errors_Is err ErrItemNotFound)))
       \<and> ((\<exists>e. fst (UpdateItem IsNotFoundError u item_id input s) = Returns (Inl e)
                \<and> errors_Is e ErrItemNotFound)
            \<longleftrightarrow> (\<exists>err. fst (FindByID (itemRepo u) item_id s) = Inl err
                      \<and> (IsNotFoundError err \<or> errors_Is err ErrItemNotFound))
              \<or> (\<exists>existingItem s1 item err s2.
                    FindByID (itemRepo u) item_id s = (Inr existingItem, s1)
                  \<and> (update_fields input existingItem :: ('e error + Item option) outcome)
                      = Returns (Inr item)
                  \<and> Update (itemRepo u) item s1 = (Inl err, s2)
                  \<and> errors_Is err ErrItemNotFound))
       \<and> ((\<exists>e. fst (DeleteItem IsNotFoundError u item_id s) = Some e
                \<and> errors_Is e ErrItemNotFound)
            \<longleftrightarrow> (\<exists>err. fst (FindByID (itemRepo u) item_id s) = Inl err
                      \<and> (IsNotFoundError err \<or> errors_Is err ErrItemNotFound))
              \<or> (\<exists>existingItem s1 err s2.
                    FindByID (itemRepo u) item_id s = (Inr existingItem, s1)
                  \<and> Delete (itemRepo u) item_id s1 = (Some err, s2)
                  \<and> errors_Is err ErrItemNotFound))"
  proof (cases r)
    case (Inl err)
    with look have l: "FindByID (itemRepo u) item_id s = (Inl err, s1)" by simp
    show ?thesis
      by (simp add: l GetItemByID_lookup_failed [OF pos l] UpdateItem_lookup_failed [OF pos l]
            DeleteItem_lookup_failed [OF pos l])
  next
    case (Inr existingItem)
    with look have l: "FindByID (itemRepo u) item_id s = (Inr existingItem, s1)" by simp
    show ?thesis
      using UpdateItem_kind_after_lookup [OF pos l, of IsNotFoundError input]
        DeleteItem_kind_after_lookup [OF pos l, of IsNotFoundError]
      by (simp add: l GetItemByID_lookup_ok [OF pos l])
  qed
  show ?thesis
    by (rule conjI [OF sentinel [THEN conjunct1]
          conjI [OF sentinel [THEN conjunct2, THEN conjunct1]
            conjI [OF sentinel [THEN conjunct2, THEN conjunct2] rest]]])
qed

text \<open>
  The claim as first stated fails for the kind: when the item is deleted by another
  caller between the lookup and the mutation, and the repository answers with
  \<^verbatim>\<open>ErrItemNotFound\<close>, the lookup has not signalled not-found, yet \<^verbatim>\<open>UpdateItem\<close> and
  \<^verbatim>\<open>DeleteItem\<close> return an error of the kind \<^verbatim>\<open>ErrItemNotFound\<close>.
\<close>

theorem ItemNotFound_kind_after_found_lookup_counterexample:
  "0 < sint (1 :: int64)
   \<and> FindByID (itemRepo (NewItemUsecase (racyRepo (ErrItemNotFound :: unit error)))) 1
       [sample_item 1 ''clothing'']
     = (Inr (Some (sample_item 1 ''clothing'')), [])
   \<and> UpdateItem (is_error ErrItemNotFound)
       (NewItemUsecase (racyRepo (ErrItemNotFound :: unit error))) 1
       \<lparr>upd_Name = Some ''Omega'', upd_Brand = None, upd_PurchasePrice = None\<rparr>
       [sample_item 1 ''clothing'']
     = (Returns (Inl (Errorf ''failed to update item: '' ErrItemNotFound '''')), [],
        [Call_FindByID 1,
         Call_Update (Some ((sample_item 1 ''clothing'')\<lparr>Name := ''Omega''\<rparr>))])
   \<and> errors_Is (Errorf ''failed to update item: '' (ErrItemNotFound :: unit error) '''')
         ErrItemNotFound
   \<and> DeleteItem (is_error ErrItemNotFound)
       (NewItemUsecase (racyRepo (ErrItemNotFound :: unit error))) 1
       [sample_item 1 ''clothing'']
     = (Some (Errorf ''failed to delete item: '' ErrItemNotFound ''''), [],
        [Call_FindByID 1, Call_Delete 1])
   \<and> errors_Is (Errorf ''failed to delete item: '' (ErrItemNotFound :: unit error) '''')
         ErrItemNotFound"
  by (simp add: UpdateItem_def DeleteItem_def update_fields_def update_Name_def update_Brand_def
        update_PurchasePrice_def NewItemUsecase_def racyRepo_def memRepo_def has_ID_def
        sample_item_def is_error_def)

theorem ItemNotFound_from_lookup_or_wrapped_mutation_witness:
  "0 < sint (7 :: int64)
   \<and> fst (GetItemByID (is_error (Other ''sql: no rows''))
            (NewItemUsecase (memRepo (Other ''sql: no rows''))) 7 [sample_item 7 ''clothing''])
       \<noteq> Inl ErrItemNotFound
   \<and> fst (UpdateItem (is_error (Other ''sql: no rows''))
            (NewItemUsecase (memRepo (Other ''sql: no rows''))) 7
            \<lparr>upd_Name = Some ''Omega'', upd_Brand = None, upd_PurchasePrice = None\<rparr>
            [sample_item 1 ''clothing''])
       = Returns (Inl ErrItemNotFound)
   \<and> fst (DeleteItem (is_error (Other ''sql: no rows''))
            (NewItemUsecase (memRepo (Other ''sql: no rows''))) 7 [sample_item 1 ''clothing''])
       = Some ErrItemNotFound
   \<and> fst (GetItemByID (is_error ErrItemNotFound)
            (NewItemUsecase (downRepo (Other ''connection refused''))) 7
            [sample_item 1 ''clothing''])
       = Inl (Errorf ''failed to retrieve item: '' (Other ''connection refused'') '''')
   \<and> \<not> errors_Is (Errorf ''failed to retrieve item: '' (Other ''connection refused'') '''')
          ErrItemNotFound
   \<and> (\<exists>e. fst (GetItemByID (is_error (Other ''sql: no rows''))
                 (NewItemUsecase (memRepo (Other ''sql: no rows''))) 7
                 [sample_item 1 ''clothing'']) = Inl e
          \<and> errors_Is e ErrItemNotFound)
   \<and> (\<exists>e. fst (UpdateItem (is_error ErrItemNotFound)
                 (NewItemUsecase (racyRepo (ErrItemNotFound :: string error))) 7
                 \<lparr>upd_Name = Some ''Omega'', upd_Brand = None, upd_PurchasePrice = None\<rparr>
                 [sample_item 7 ''clothing'']) = Returns (Inl e)
          \<and> errors_Is e ErrItemNotFound)
   \<and> (\<exists>e. fst (DeleteItem (is_error ErrItemNotFound)
                 (NewItemUsecase (racyRepo (ErrItemNotFound :: string error))) 7
                 [sample_item 7 ''clothing'']) = Some e
          \<and> errors_Is e ErrItemNotFound)"
proof -
  let ?nf = "Other ''sql: no rows'' :: string error"
  let ?down_err = "Other ''connection refused'' :: string error"
  let ?mem = "NewItemUsecase (memRepo ?nf)"
  let ?down = "NewItemUsecase (downRepo ?down_err) :: (Item list, string) itemUsecase"
  let ?racy = "NewItemUsecase (racyRepo (ErrItemNotFound :: string error))"
  let ?input = "\<lparr>upd_Name = Some ''Omega'', upd_Brand = None, upd_PurchasePrice = None\<rparr>"
  let ?s1 = "[sample_item 1 ''clothing'']"
  let ?s7 = "[sample_item 7 ''clothing'']"
  have pos: "0 < sint (7 :: int64)" by simp
  have found: "\<not> (\<exists>err. fst (FindByID (itemRepo ?mem) 7 ?s7) = Inl err \<and> is_error ?nf err)"
    by (simp add: NewItemUsecase_def memRepo_def has_ID_def sample_item_def)
  have missing: "\<exists>err. fst (FindByID (itemRepo ?mem) 7 ?s1) = Inl err \<and> is_error ?nf err"
    by (simp add: NewItemUsecase_def memRepo_def has_ID_def sample_item_def is_error_def)
  have missing_kind: "\<exists>err. fst (FindByID (itemRepo ?mem) 7 ?s1) = Inl err
                       \<and> (is_error ?nf err \<or> errors_Is err ErrItemNotFound)"
    by (simp add: NewItemUsecase_def memRepo_def has_ID_def sample_item_def is_error_def)
  have down: "fst (FindByID (itemRepo ?down) 7 ?s1) = Inl ?down_err
              \<and> \<not> is_error ErrItemNotFound ?down_err"
    by (simp add: NewItemUsecase_def downRepo_def is_error_def)
  have update_fails:
    "\<exists>existingItem s1 item err s2.
        FindByID (itemRepo ?racy) 7 ?s7 = (Inr existingItem, s1)
      \<and> (update_fields ?input existingItem :: (string error + Item option) outcome)
          = Returns (Inr item)
      \<and> Update (itemRepo ?racy) item s1 = (Inl err, s2)
      \<and> errors_Is err ErrItemNotFound"
    by (simp add: NewItemUsecase_def racyRepo_def memRepo_def has_ID_def sample_item_def
          update_fields_def update_Name_def update_Brand_def update_PurchasePrice_def)
  have delete_fails:
    "\<exists>existingItem s1 err s2.
        FindByID (itemRepo ?racy) 7 ?s7 = (Inr existingItem, s1)
      \<and> Delete (itemRepo ?racy) 7 s1 = (Some err, s2)
      \<and> errors_Is err ErrItemNotFound"
    by (simp add: NewItemUsecase_def racyRepo_def memRepo_def has_ID_def sample_item_def)
  note on_found = ItemNotFound_from_lookup_or_wrapped_mutation
      [where u = ?mem and item_id = 7 and s = ?s7 and input = ?input
         and IsNotFoundError = "is_error ?nf", OF pos]
  note on_missing = ItemNotFound_from_lookup_or_wrapped_mutation
      [where u = ?mem and item_id = 7 and s = ?s1 and input = ?input
         and IsNotFoundError = "is_error ?nf", OF pos]
  note on_down = ItemNotFound_from_lookup_or_wrapped_mutation
      [where u = ?down and item_id = 7 and s = ?s1 and input = ?input
         and IsNotFoundError = "is_error ErrItemNotFound", OF pos]
  note on_racy = ItemNotFound_from_lookup_or_wrapped_mutation
      [where u = ?racy and item_id = 7 and s = ?s7 and input = ?input
         and IsNotFoundError = "is_error ErrItemNotFound", OF pos]
  from on_found [THEN conjunct1] found
  have a: "fst (GetItemByID (is_error ?nf) ?mem 7 ?s7) \<noteq> Inl ErrItemNotFound"
    by (simp only: simp_thms)
  from on_missing [THEN conjunct2, THEN conjunct1] missing
  have b: "fst (UpdateItem (is_error ?nf) ?mem 7 ?input ?s1) = Returns (Inl ErrItemNotFound)"
    by (simp only: simp_thms)
  from on_missing [THEN conjunct2, THEN conjunct2, THEN conjunct1] missing
  have c: "fst (DeleteItem (is_error ?nf) ?mem 7 ?s1) = Some ErrItemNotFound"
    by (simp only: simp_thms)
  note wrapped = on_down [THEN conjunct2, THEN conjunct2, THEN conjunct2, THEN conjunct1,
                          rule_format, OF down]
  from wrapped [THEN conjunct1]
  have d: "fst (GetItemByID (is_error ErrItemNotFound) ?down 7 ?s1)
           = Inl (Errorf ''failed to retrieve item: '' ?down_err '''')" .
  from wrapped [THEN conjunct2, THEN conjunct2, THEN conjunct2, THEN conjunct1]
  have e: "\<not> errors_Is (Errorf ''failed to retrieve item: '' ?down_err '''') ErrItemNotFound"
    by simp
  from on_missing [THEN conjunct2, THEN conjunct2, THEN conjunct2, THEN conjunct2,
                   THEN conjunct1] missing_kind
  have f: "\<exists>e. fst (GetItemByID (is_error ?nf) ?mem 7 ?s1) = Inl e
               \<and> errors_Is e ErrItemNotFound"
    by (simp only: simp_thms)
  from on_racy [THEN conjunct2, THEN conjunct2, THEN conjunct2, THEN conjunct2,
                THEN conjunct2, THEN conjunct1] update_fails
  have g: "\<exists>e. fst (UpdateItem (is_error ErrItemNotFound) ?racy 7 ?input ?s7) = Returns (Inl e)
               \<and> errors_Is e ErrItemNotFound"
    by (simp only: simp_thms)
  from on_racy [THEN conjunct2, THEN conjunct2, THEN conjunct2, THEN conjunct2,
                THEN conjunct2, THEN conjunct2] delete_fails
  have h: "\<exists>e. fst (DeleteItem (is_error ErrItemNotFound) ?racy 7 ?s7) = Some e
               \<and> errors_Is e ErrItemNotFound"
    by (simp only: simp_thms)
  from pos a b c d e f g h show ?thesis by (intro conjI)
qed

subsection \<open>The partial update\<close>

lemma update_fields_absent:
  "upd_Name input = None \<Longrightarrow> upd_Brand input = None \<Longrightarrow> upd_PurchasePrice input = None
   \<Longrightarrow> update_fields input existingItem = Returns (Inr existingItem)"
  by (simp add: update_fields_def update_Name_def update_Brand_def update_PurchasePrice_def)

lemma update_Name_cases:
  "update_Name name (Some it) =
     (case name of
        None \<Rightarrow> Returns (Inr (Some it))
      | Some n \<Rightarrow>
          if length n = 0 \<or> 100 < length n
          then Returns (Inl (Errorf '''' ErrInvalidInput '': name must be between 1 and 100 characters''))
          else Returns (Inr (Some (it\<lparr>Name := n\<rparr>))))"
  by (simp add: update_Name_def split: option.splits)

lemma update_Brand_cases:
  "update_Brand brand (Some it) =
     (case brand of
        None \<Rightarrow> Returns (Inr (Some it))
      | Some b \<Rightarrow>
          if length b = 0 \<or> 100 < length b
          then Returns (Inl (Errorf '''' ErrInvalidInput '': brand must be between 1 and 100 characters''))
          else Returns (Inr (Some (it\<lparr>Brand := b\<rparr>))))"
  by (simp add: update_Brand_def split: option.splits)

lemma update_PurchasePrice_cases:
  "update_PurchasePrice price (Some it) =
     (case price of
        None \<Rightarrow> Returns (Inr (Some it))
      | Some p \<Rightarrow>
          if sint p < 0
          then Returns (Inl (Errorf '''' ErrInvalidInput '': purchase_price must be 0 or greater''))
          else Returns (Inr (Some (it\<lparr>PurchasePrice := p\<rparr>))))"
  by (simp add: update_PurchasePrice_def split: option.splits)

lemma update_fields_violation:
  assumes "(\<exists>n. upd_Name input = Some n \<and> (length n = 0 \<or> 100 < length n))
         \<or> (\<exists>b. upd_Brand input = Some b \<and> (length b = 0 \<or> 100 < length b))
         \<or> (\<exists>p. upd_PurchasePrice input = Some p \<and> sint p < 0)"
  shows "\<exists>err. update_fields input (Some it) = Returns (Inl err) \<and> errors_Is err ErrInvalidInput"
  using assms
  by (auto simp: update_fields_def update_Name_cases update_Brand_cases update_PurchasePrice_cases
           split: option.splits)

text \<open>
  C6. For every id \<open>> 0\<close> whose item exists, \<^verbatim>\<open>UpdateItem\<close> with a present field that
  breaks its rule (a \<^verbatim>\<open>Name\<close> or \<^verbatim>\<open>Brand\<close> of length 0 or above 100, a negative
  \<^verbatim>\<open>PurchasePrice\<close>) returns an error of the kind \<^verbatim>\<open>ErrInvalidInput\<close> and makes no
  call but the lookup, so \<^verbatim>\<open>Update\<close> is not called; with all fields absent it calls
  \<^verbatim>\<open>Update\<close> with the item exactly as \<^verbatim>\<open>FindByID\<close> returned it, in the state the
  lookup left, and returns what that call returns: its item and state, or its error
  wrapped.
\<close>

theorem UpdateItem_invalid_field_or_no_field:
  fixes u :: "('s, 'e) itemUsecase"
  assumes pos: "0 < sint item_id"
      and look: "FindByID (itemRepo u) item_id s = (Inr (Some existingItem), s1)"
  shows "((\<exists>n. upd_Name input = Some n \<and> (length n = 0 \<or> 100 < length n))
          \<or> (\<exists>b. upd_Brand input = Some b \<and> (length b = 0 \<or> 100 < length b))
          \<or> (\<exists>p. upd_PurchasePrice input = Some p \<and> sint p < 0)
          \<longrightarrow> (\<exists>err. UpdateItem IsNotFoundError u item_id input s
                        = (Returns (Inl err), s1, [Call_FindByID item_id])
                    \<and> errors_Is err ErrInvalidInput))
       \<and> (upd_Name input = None \<and> upd_Brand input = None \<and> upd_PurchasePrice input = None
          \<longrightarrow> snd (snd (UpdateItem IsNotFoundError u item_id input s))
                = [Call_FindByID item_id, Call_Update (Some existingItem)]
            \<and> (\<forall>updatedItem s2.
                  Update (itemRepo u) (Some existingItem) s1 = (Inr updatedItem, s2)
                  \<longrightarrow> UpdateItem IsNotFoundError u item_id input s
                      = (Returns (Inr updatedItem), s2,
                         [Call_FindByID item_id, Call_Update (Some existingItem)]))
            \<and> (\<forall>err s2.
                  Update (itemRepo u) (Some existingItem) s1 = (Inl err, s2)
                  \<longrightarrow> UpdateItem IsNotFoundError u item_id input s
                      = (Returns (Inl (Errorf ''failed to update item: '' err '''')), s2,
                         [Call_FindByID item_id, Call_Update (Some existingItem)])))"
proof (intro conjI impI)
  assume "(\<exists>n. upd_Name input = Some n \<and> (length n = 0 \<or> 100 < length n))
          \<or> (\<exists>b. upd_Brand input = Some b \<and> (length b = 0 \<or> 100 < length b))
          \<or> (\<exists>p. upd_PurchasePrice input = Some p \<and> sint p < 0)"
  from update_fields_violation [OF this, of existingItem]
  obtain err :: "'e error" where stop: "update_fields input (Some existingItem) = Returns (Inl err)"
    and kind: "errors_Is err ErrInvalidInput" by blast
  have "UpdateItem IsNotFoundError u item_id input s
          = (Returns (Inl err), s1, [Call_FindByID item_id])"
    by (simp add: UpdateItem_lookup_ok [OF pos look] stop)
  with kind show "\<exists>err. UpdateItem IsNotFoundError u item_id input s
                        = (Returns (Inl err), s1, [Call_FindByID item_id])
                    \<and> errors_Is err ErrInvalidInput"
    by blast
next
  assume "upd_Name input = None \<and> upd_Brand input = None \<and> upd_PurchasePrice input = None"
  then have kept: "(update_fields input (Some existingItem) :: ('e error + Item option) outcome)
               = Returns (Inr (Some existingItem))"
    by (simp add: update_fields_absent)
  have run: "UpdateItem IsNotFoundError u item_id input s =
     (case Update (itemRepo u) (Some existingItem) s1 of
        (Inl err, s2) \<Rightarrow>
          (Returns (Inl (Errorf ''failed to update item: '' err '''')), s2,
           [Call_FindByID item_id, Call_Update (Some existingItem)])
      | (Inr updatedItem, s2) \<Rightarrow>
          (Returns (Inr updatedItem), s2,
           [Call_FindByID item_id, Call_Update (Some existingItem)]))"
    by (simp add: UpdateItem_lookup_ok [OF pos look] kept)
  show "snd (snd (UpdateItem IsNotFoundError u item_id input s))
                = [Call_FindByID item_id, Call_Update (Some existingItem)]"
    unfolding run by (simp split: prod.splits sum.splits)
  show "\<forall>updatedItem s2.
                  Update (itemRepo u) (Some existingItem) s1 = (Inr updatedItem, s2)
                  \<longrightarrow> UpdateItem IsNotFoundError u item_id input s
                      = (Returns (Inr updatedItem), s2,
                         [Call_FindByID item_id, Call_Update (Some existingItem)])"
    unfolding run by simp
  show "\<forall>err s2.
                  Update (itemRepo u) (Some existingItem) s1 = (Inl err, s2)
                  \<longrightarrow> UpdateItem IsNotFoundError u item_id input s
                      = (Returns (Inl (Errorf ''failed to update item: '' err '''')), s2,
                         [Call_FindByID item_id, Call_Update (Some existingItem)])"
    unfolding run by simp
qed

theorem UpdateItem_invalid_field_or_no_field_witness:
  "0 < sint (1 :: int64)
   \<and> (\<exists>err. UpdateItem (is_error ErrItemNotFound)
               (NewItemUsecase (memRepo (ErrItemNotFound :: unit error))) 1
               \<lparr>upd_Name = None, upd_Brand = None, upd_PurchasePrice = Some (- 1)\<rparr>
               [sample_item 1 ''clothing'']
             = (Returns (Inl err), [sample_item 1 ''clothing''], [Call_FindByID 1])
           \<and> errors_Is err ErrInvalidInput)
   \<and> UpdateItem (is_error ErrItemNotFound)
        (NewItemUsecase (memRepo (ErrItemNotFound :: unit error))) 1
        \<lparr>upd_Name = None, upd_Brand = None, upd_PurchasePrice = None\<rparr>
        [sample_item 1 ''clothing'']
      = (Returns (Inr (Some (sample_item 1 ''clothing''))), [sample_item 1 ''clothing''],
         [Call_FindByID 1, Call_Update (Some (sample_item 1 ''clothing''))])
   \<and> UpdateItem (is_error ErrItemNotFound)
        (NewItemUsecase (racyRepo (ErrItemNotFound :: unit error))) 1
        \<lparr>upd_Name = None, upd_Brand = None, upd_PurchasePrice = None\<rparr>
        [sample_item 1 ''clothing'']
      = (Returns (Inl (Errorf ''failed to update item: '' ErrItemNotFound '''')), [],
         [Call_FindByID 1, Call_Update (Some (sample_item 1 ''clothing''))])"
proof -
  let ?mem = "NewItemUsecase (memRepo (ErrItemNotFound :: unit error))"
  let ?racy = "NewItemUsecase (racyRepo (ErrItemNotFound :: unit error))"
  let ?s = "[sample_item 1 ''clothing'']"
  let ?neg = "\<lparr>upd_Name = None, upd_Brand = None, upd_PurchasePrice = Some (- 1)\<rparr>"
  let ?empty = "\<lparr>upd_Name = None, upd_Brand = None, upd_PurchasePrice = None\<rparr>"
  have pos: "0 < sint (1 :: int64)" by simp
  have look: "FindByID (itemRepo ?mem) 1 ?s = (Inr (Some (sample_item 1 ''clothing'')), ?s)"
    by (simp add: NewItemUsecase_def memRepo_def has_ID_def sample_item_def)
  have look_racy: "FindByID (itemRepo ?racy) 1 ?s = (Inr (Some (sample_item 1 ''clothing'')), [])"
    by (simp add: NewItemUsecase_def racyRepo_def memRepo_def has_ID_def sample_item_def)
  have updated: "Update (itemRepo ?mem) (Some (sample_item 1 ''clothing'')) ?s
                 = (Inr (Some (sample_item 1 ''clothing'')), ?s)"
    by (simp add: NewItemUsecase_def memRepo_def has_ID_def sample_item_def)
  have failed: "Update (itemRepo ?racy) (Some (sample_item 1 ''clothing'')) []
                 = (Inl ErrItemNotFound, [])"
    by (simp add: NewItemUsecase_def racyRepo_def memRepo_def)
  have bad: "(\<exists>n. upd_Name ?neg = Some n \<and> (length n = 0 \<or> 100 < length n))
          \<or> (\<exists>b. upd_Brand ?neg = Some b \<and> (length b = 0 \<or> 100 < length b))
          \<or> (\<exists>p. upd_PurchasePrice ?neg = Some p \<and> sint p < 0)"
    by simp
  have none: "upd_Name ?empty = None \<and> upd_Brand ?empty = None \<and> upd_PurchasePrice ?empty = None"
    by simp
  note rejected = UpdateItem_invalid_field_or_no_field
      [where u = ?mem and item_id = 1 and s = ?s and input = ?neg
         and IsNotFoundError = "is_error ErrItemNotFound", OF pos look]
  note on_mem = UpdateItem_invalid_field_or_no_field
      [where u = ?mem and item_id = 1 and s = ?s and input = ?empty
         and IsNotFoundError = "is_error ErrItemNotFound", OF pos look]
  note on_racy = UpdateItem_invalid_field_or_no_field
      [where u = ?racy and item_id = 1 and s = ?s and input = ?empty
         and IsNotFoundError = "is_error ErrItemNotFound", OF pos look_racy]
  from rejected [THEN conjunct1, rule_format, OF bad]
  have 1: "\<exists>err. UpdateItem (is_error ErrItemNotFound) ?mem 1 ?neg ?s
             = (Returns (Inl err), ?s, [Call_FindByID 1])
           \<and> errors_Is err ErrInvalidInput" .
  from on_mem [THEN conjunct2, rule_format, OF none, THEN conjunct2, THEN conjunct1,
               rule_format, OF updated]
  have 2: "UpdateItem (is_error ErrItemNotFound) ?mem 1 ?empty ?s
      = (Returns (Inr (Some (sample_item 1 ''clothing''))), ?s,
         [Call_FindByID 1, Call_Update (Some (sample_item 1 ''clothing''))])" .
  from on_racy [THEN conjunct2, rule_format, OF none, THEN conjunct2, THEN conjunct2,
                rule_format, OF failed]
  have 3: "UpdateItem (is_error ErrItemNotFound) ?racy 1 ?empty ?s
      = (Returns (Inl (Errorf ''failed to update item: '' ErrItemNotFound '''')), [],
         [Call_FindByID 1, Call_Update (Some (sample_item 1 ''clothing''))])" .
  from pos 1 2 3 show ?thesis by (intro conjI)
qed

lemma update_fields_frame:
  assumes "update_fields input existingItem = Returns (Inr item)"
  shows "map_option ID item = map_option ID existingItem
       \<and> map_option Category item = map_option Category existingItem
       \<and> map_option PurchaseDate item = map_option PurchaseDate existingItem"
  using assms
  by (cases existingItem)
     (auto simp: update_fields_def update_Name_def update_Brand_def update_PurchasePrice_def
           split: option.splits if_splits)

text \<open>
  C9. For every id and every input, an item that \<^verbatim>\<open>UpdateItem\<close> passes to the
  repository's \<^verbatim>\<open>Update\<close> has the \<^verbatim>\<open>Category\<close>, the \<^verbatim>\<open>PurchaseDate\<close> and the \<^verbatim>\<open>ID\<close> of
  the item \<^verbatim>\<open>FindByID\<close> returned: \<^verbatim>\<open>UpdateItemInput\<close> has no field for them.
\<close>

theorem UpdateItem_keeps_ID_Category_PurchaseDate:
  fixes u :: "('s, 'e) itemUsecase"
  assumes called: "Call_Update item \<in> set (snd (snd (UpdateItem IsNotFoundError u item_id input s)))"
  shows "\<exists>existingItem s1.
           FindByID (itemRepo u) item_id s = (Inr existingItem, s1)
         \<and> map_option Category item = map_option Category existingItem
         \<and> map_option PurchaseDate item = map_option PurchaseDate existingItem
         \<and> map_option ID item = map_option ID existingItem"
proof -
  have pos: "0 < sint item_id"
    using called by (cases "sint item_id \<le> 0") (simp_all add: UpdateItem_def)
  obtain r s1 where look: "FindByID (itemRepo u) item_id s = (r, s1)"
    by (cases "FindByID (itemRepo u) item_id s")
  show ?thesis
  proof (cases r)
    case (Inl err)
    with look have "FindByID (itemRepo u) item_id s = (Inl err, s1)" by simp
    from called UpdateItem_lookup_failed [OF pos this, of IsNotFoundError input]
    show ?thesis by simp
  next
    case (Inr existingItem)
    with look have l: "FindByID (itemRepo u) item_id s = (Inr existingItem, s1)" by simp
    from called have "(update_fields input existingItem :: ('e error + Item option) outcome)
                        = Returns (Inr item)"
      by (auto simp: UpdateItem_lookup_ok [OF pos l] split: outcome.splits sum.splits prod.splits)
    from update_fields_frame [OF this] l show ?thesis by simp
  qed
qed

theorem UpdateItem_keeps_ID_Category_PurchaseDate_witness:
  "Call_Update (Some ((sample_item 1 ''clothing'')\<lparr>Name := ''Omega'', PurchasePrice := 0\<rparr>))
     \<in> set (snd (snd (UpdateItem (is_error ErrItemNotFound)
                          (NewItemUsecase (memRepo (ErrItemNotFound :: unit error))) 1
                          \<lparr>upd_Name = Some ''Omega'', upd_Brand = None, upd_PurchasePrice = Some 0\<rparr>
                          [sample_item 1 ''clothing''])))
   \<and> (\<exists>existingItem s1.
         FindByID (itemRepo (NewItemUsecase (memRepo (ErrItemNotFound :: unit error)))) 1
           [sample_item 1 ''clothing''] = (Inr existingItem, s1)
       \<and> Some ''clothing'' = map_option Category existingItem
       \<and> Some ''2023-01-15'' = map_option PurchaseDate existingItem
       \<and> Some 1 = map_option ID existingItem)"
proof -
  have called: "Call_Update (Some ((sample_item 1 ''clothing'')\<lparr>Name := ''Omega'', PurchasePrice := 0\<rparr>))
     \<in> set (snd (snd (UpdateItem (is_error ErrItemNotFound)
                          (NewItemUsecase (memRepo (ErrItemNotFound :: unit error))) 1
                          \<lparr>upd_Name = Some ''Omega'', upd_Brand = None, upd_PurchasePrice = Some 0\<rparr>
                          [sample_item 1 ''clothing''])))"
    by (simp add: UpdateItem_def update_fields_def update_Name_def update_Brand_def
          update_PurchasePrice_def NewItemUsecase_def memRepo_def has_ID_def sample_item_def)
  from UpdateItem_keeps_ID_Category_PurchaseDate [OF called]
  have "\<exists>existingItem s1.
         FindByID (itemRepo (NewItemUsecase (memRepo (ErrItemNotFound :: unit error)))) 1
           [sample_item 1 ''clothing''] = (Inr existingItem, s1)
       \<and> Some ''clothing'' = map_option Category existingItem
       \<and> Some ''2023-01-15'' = map_option PurchaseDate existingItem
       \<and> Some 1 = map_option ID existingItem"
    by (simp add: sample_item_def)
  with called show ?thesis by (rule conjI)
qed

subsection \<open>Lengths are counted in bytes\<close>

lemma length_e_acute: "length (e_acute n) = 2 * n"
  by (induction n) (simp_all add: e_acute_def)

lemma RuneCountInString_e_acute: "RuneCountInString (e_acute n) = n"
  by (induction n) (simp_all add: e_acute_def RuneCountInString_def is_continuation_byte_def)

lemma update_fields_Name_rejected:
  "upd_Name input = Some n \<Longrightarrow>
   (update_fields input (Some it)
      = Returns (Inl (Errorf '''' ErrInvalidInput '': name must be between 1 and 100 characters'')))
   \<longleftrightarrow> \<not> (1 \<le> length n \<and> length n \<le> 100)"
  by (auto simp: update_fields_def update_Name_cases update_Brand_cases update_PurchasePrice_cases
             Suc_le_eq
           split: option.splits)

lemma update_fields_Brand_rejected:
  "upd_Brand input = Some b \<Longrightarrow>
   (\<forall>n. upd_Name input = Some n \<longrightarrow> 1 \<le> length n \<and> length n \<le> 100) \<Longrightarrow>
   (update_fields input (Some it)
      = Returns (Inl (Errorf '''' ErrInvalidInput '': brand must be between 1 and 100 characters'')))
   \<longleftrightarrow> \<not> (1 \<le> length b \<and> length b \<le> 100)"
  by (auto simp: update_fields_def update_Name_cases update_Brand_cases update_PurchasePrice_cases
             Suc_le_eq
           split: option.splits)

lemma UpdateItem_rejected_iff:
  fixes u :: "('s, 'e) itemUsecase"
  assumes pos: "0 < sint item_id"
      and look: "FindByID (itemRepo u) item_id s = (Inr (Some existingItem), s1)"
  shows "fst (UpdateItem IsNotFoundError u item_id input s) = Returns (Inl (Errorf '''' ErrInvalidInput msg))
         \<longleftrightarrow> (update_fields input (Some existingItem) :: ('e error + Item option) outcome)
               = Returns (Inl (Errorf '''' ErrInvalidInput msg))"
  by (auto simp: UpdateItem_lookup_ok [OF pos look] split: outcome.splits sum.splits prod.splits)

text \<open>
  C10. A \<^verbatim>\<open>Name\<close> or \<^verbatim>\<open>Brand\<close> present in the input of \<^verbatim>\<open>UpdateItem\<close> is accepted if and
  only if its length in bytes (Go's \<^verbatim>\<open>len\<close>) is between 1 and 100: with the item found,
  the operation fails with the error of that field exactly when the length is outside
  that range (for \<^verbatim>\<open>Brand\<close>, once the \<^verbatim>\<open>Name\<close> before it is absent or accepted). A string
  of more than 100 bytes is rejected as \<^verbatim>\<open>ErrInvalidInput\<close> even when it has at most
  100 characters.
\<close>

theorem UpdateItem_Name_Brand_length_in_bytes:
  fixes u :: "('s, 'e) itemUsecase"
  assumes pos: "0 < sint item_id"
      and look: "FindByID (itemRepo u) item_id s = (Inr (Some existingItem), s1)"
  shows "(\<forall>n. upd_Name input = Some n \<longrightarrow>
            (fst (UpdateItem IsNotFoundError u item_id input s)
               = Returns (Inl (Errorf '''' ErrInvalidInput
                                 '': name must be between 1 and 100 characters''))
             \<longleftrightarrow> \<not> (1 \<le> length n \<and> length n \<le> 100)))
       \<and> (\<forall>b. upd_Brand input = Some b
              \<and> (\<forall>n. upd_Name input = Some n \<longrightarrow> 1 \<le> length n \<and> length n \<le> 100) \<longrightarrow>
            (fst (UpdateItem IsNotFoundError u item_id input s)
               = Returns (Inl (Errorf '''' ErrInvalidInput
                                 '': brand must be between 1 and 100 characters''))
             \<longleftrightarrow> \<not> (1 \<le> length b \<and> length b \<le> 100)))
       \<and> (\<forall>str. (upd_Name input = Some str \<or> upd_Brand input = Some str)
              \<and> 100 < length str \<and> RuneCountInString str \<le> 100 \<longrightarrow>
            (\<exists>err. UpdateItem IsNotFoundError u item_id input s
                      = (Returns (Inl err), s1, [Call_FindByID item_id])
                  \<and> errors_Is err ErrInvalidInput))"
proof (intro conjI allI impI)
  fix n assume "upd_Name input = Some n"
  then show "fst (UpdateItem IsNotFoundError u item_id input s)
               = Returns (Inl (Errorf '''' ErrInvalidInput
                                 '': name must be between 1 and 100 characters''))
             \<longleftrightarrow> \<not> (1 \<le> length n \<and> length n \<le> 100)"
    by (simp only: UpdateItem_rejected_iff [OF pos look] update_fields_Name_rejected)
next
  fix b assume "upd_Brand input = Some b
              \<and> (\<forall>n. upd_Name input = Some n \<longrightarrow> 1 \<le> length n \<and> length n \<le> 100)"
  then have b: "upd_Brand input = Some b"
    and n: "\<forall>n. upd_Name input = Some n \<longrightarrow> 1 \<le> length n \<and> length n \<le> 100"
    by simp_all
  show "fst (UpdateItem IsNotFoundError u item_id input s)
               = Returns (Inl (Errorf '''' ErrInvalidInput
                                 '': brand must be between 1 and 100 characters''))
             \<longleftrightarrow> \<not> (1 \<le> length b \<and> length b \<le> 100)"
    by (simp only: UpdateItem_rejected_iff [OF pos look] update_fields_Brand_rejected [OF b n])
next
  fix str assume h: "(upd_Name input = Some str \<or> upd_Brand input = Some str)
              \<and> 100 < length str \<and> RuneCountInString str \<le> 100"
  then have "(\<exists>n. upd_Name input = Some n \<and> (length n = 0 \<or> 100 < length n))
          \<or> (\<exists>b. upd_Brand input = Some b \<and> (length b = 0 \<or> 100 < length b))
          \<or> (\<exists>p. upd_PurchasePrice input = Some p \<and> sint p < 0)"
    by blast
  from update_fields_violation [OF this, of existingItem]
  obtain err :: "'e error" where stop: "update_fields input (Some existingItem) = Returns (Inl err)"
    and kind: "errors_Is err ErrInvalidInput" by blast
  have "UpdateItem IsNotFoundError u item_id input s
          = (Returns (Inl err), s1, [Call_FindByID item_id])"
    by (simp add: UpdateItem_lookup_ok [OF pos look] stop)
  with kind show "\<exists>err. UpdateItem IsNotFoundError u item_id input s
                      = (Returns (Inl err), s1, [Call_FindByID item_id])
                  \<and> errors_Is err ErrInvalidInput"
    by blast
qed

theorem UpdateItem_Name_Brand_length_in_bytes_witness:
  "0 < sint (1 :: int64)
   \<and> length (e_acute 51) = 102 \<and> RuneCountInString (e_acute 51) = 51
   \<and> fst (UpdateItem (is_error ErrItemNotFound)
            (NewItemUsecase (memRepo (ErrItemNotFound :: unit error))) 1
            \<lparr>upd_Name = Some (e_acute 51), upd_Brand = None, upd_PurchasePrice = None\<rparr>
            [sample_item 1 ''clothing''])
       = Returns (Inl (Errorf '''' ErrInvalidInput '': name must be between 1 and 100 characters''))
   \<and> fst (UpdateItem (is_error ErrItemNotFound)
            (NewItemUsecase (memRepo (ErrItemNotFound :: unit error))) 1
            \<lparr>upd_Name = Some (e_acute 50), upd_Brand = Some (e_acute 51), upd_PurchasePrice = None\<rparr>
            [sample_item 1 ''clothing''])
       = Returns (Inl (Errorf '''' ErrInvalidInput '': brand must be between 1 and 100 characters''))
   \<and> fst (UpdateItem (is_error ErrItemNotFound)
            (NewItemUsecase (memRepo (ErrItemNotFound :: unit error))) 1
            \<lparr>upd_Name = Some (e_acute 50), upd_Brand = None, upd_PurchasePrice = None\<rparr>
            [sample_item 1 ''clothing''])
       \<noteq> Returns (Inl (Errorf '''' ErrInvalidInput '': name must be between 1 and 100 characters''))
   \<and> (\<exists>err. UpdateItem (is_error ErrItemNotFound)
            (NewItemUsecase (memRepo (ErrItemNotFound :: unit error))) 1
            \<lparr>upd_Name = Some (e_acute 51), upd_Brand = None, upd_PurchasePrice = None\<rparr>
            [sample_item 1 ''clothing'']
          = (Returns (Inl err), [sample_item 1 ''clothing''], [Call_FindByID 1])
        \<and> errors_Is err ErrInvalidInput)"
proof -
  let ?u = "NewItemUsecase (memRepo (ErrItemNotFound :: unit error))"
  have pos: "0 < sint (1 :: int64)" by simp
  have look: "FindByID (itemRepo ?u) 1 [sample_item 1 ''clothing'']
              = (Inr (Some (sample_item 1 ''clothing'')), [sample_item 1 ''clothing''])"
    by (simp add: NewItemUsecase_def memRepo_def has_ID_def sample_item_def)
  have len: "length (e_acute 51) = 102" "length (e_acute 50) = 100"
    and runes: "RuneCountInString (e_acute 51) = 51"
    by (simp_all add: length_e_acute RuneCountInString_e_acute)
  note long_name = UpdateItem_Name_Brand_length_in_bytes [OF pos look,
      of "\<lparr>upd_Name = Some (e_acute 51), upd_Brand = None, upd_PurchasePrice = None\<rparr>"
         "is_error ErrItemNotFound"]
  note long_brand = UpdateItem_Name_Brand_length_in_bytes [OF pos look,
      of "\<lparr>upd_Name = Some (e_acute 50), upd_Brand = Some (e_acute 51), upd_PurchasePrice = None\<rparr>"
         "is_error ErrItemNotFound"]
  note good_name = UpdateItem_Name_Brand_length_in_bytes [OF pos look,
      of "\<lparr>upd_Name = Some (e_acute 50), upd_Brand = None, upd_PurchasePrice = None\<rparr>"
         "is_error ErrItemNotFound"]
  from long_name have 1: "fst (UpdateItem (is_error ErrItemNotFound) ?u 1
            \<lparr>upd_Name = Some (e_acute 51), upd_Brand = None, upd_PurchasePrice = None\<rparr>
            [sample_item 1 ''clothing''])
       = Returns (Inl (Errorf '''' ErrInvalidInput '': name must be between 1 and 100 characters''))"
    by (simp add: len)
  from long_brand have 2: "fst (UpdateItem (is_error ErrItemNotFound) ?u 1
            \<lparr>upd_Name = Some (e_acute 50), upd_Brand = Some (e_acute 51), upd_PurchasePrice = None\<rparr>
            [sample_item 1 ''clothing''])
       = Returns (Inl (Errorf '''' ErrInvalidInput '': brand must be between 1 and 100 characters''))"
    by (simp add: len)
  from good_name have 3: "fst (UpdateItem (is_error ErrItemNotFound) ?u 1
            \<lparr>upd_Name = Some (e_acute 50), upd_Brand = None, upd_PurchasePrice = None\<rparr>
            [sample_item 1 ''clothing''])
       \<noteq> Returns (Inl (Errorf '''' ErrInvalidInput '': name must be between 1 and 100 characters''))"
    by (simp add: len)
  from long_name have 4: "\<exists>err. UpdateItem (is_error ErrItemNotFound) ?u 1
            \<lparr>upd_Name = Some (e_acute 51), upd_Brand = None, upd_PurchasePrice = None\<rparr>
            [sample_item 1 ''clothing'']
          = (Returns (Inl err), [sample_item 1 ''clothing''], [Call_FindByID 1])
        \<and> errors_Is err ErrInvalidInput"
    by (simp add: len runes)
  from pos len(1) runes 1 2 3 4 show ?thesis by blast
qed

subsection \<open>CreateItem\<close>

text \<open>
  C7. When the constructor \<^verbatim>\<open>NewItem\<close> rejects the input, \<^verbatim>\<open>CreateItem\<close> returns an error
  of the kind \<^verbatim>\<open>ErrInvalidInput\<close> that carries the constructor's reason, and calls
  nothing of the repository. When \<^verbatim>\<open>NewItem\<close> succeeds, \<^verbatim>\<open>CreateItem\<close> calls
  \<^verbatim>\<open>Create\<close> with the constructed item and returns the repository's item, or the
  repository's error wrapped.
\<close>

theorem CreateItem_validates_then_creates:
  fixes u :: "('s, 'e) itemUsecase"
  shows "(\<forall>reason.
            NewItem (new_Name input) (new_Category input) (new_Brand input)
              (new_PurchasePrice input) (new_PurchaseDate input) = Inl reason
            \<longrightarrow> (\<exists>err. CreateItem NewItem u input s = (Inl err, s, [])
                    \<and> errors_Is err ErrInvalidInput
                    \<and> err = Errorf '''' ErrInvalidInput ('': '' @ reason)))
       \<and> (\<forall>item.
            NewItem (new_Name input) (new_Category input) (new_Brand input)
              (new_PurchasePrice input) (new_PurchaseDate input) = Inr item
            \<longrightarrow> snd (snd (CreateItem NewItem u input s)) = [Call_Create item]
              \<and> (\<forall>createdItem s1.
                    Create (itemRepo u) item s = (Inr createdItem, s1)
                    \<longrightarrow> CreateItem NewItem u input s = (Inr createdItem, s1, [Call_Create item]))
              \<and> (\<forall>err s1.
                    Create (itemRepo u) item s = (Inl err, s1)
                    \<longrightarrow> CreateItem NewItem u input s
                        = (Inl (Errorf ''failed to create item: '' err ''''), s1,
                           [Call_Create item])))"
  by (auto simp: CreateItem_def split: prod.splits sum.splits)

theorem CreateItem_validates_then_creates_witness:
  "CreateItem (specNewItem [''watch'', ''clothing''])
     (NewItemUsecase (memRepo (ErrItemNotFound :: unit error)))
     \<lparr>new_Name = '''', new_Category = ''watch'', new_Brand = ''ROLEX'',
      new_PurchasePrice = 1500000, new_PurchaseDate = ''2023-01-15''\<rparr>
     [sample_item 1 ''clothing'']
   = (Inl (Errorf '''' ErrInvalidInput '': name must be 1 to 100 characters''),
      [sample_item 1 ''clothing''], [])
   \<and> CreateItem (specNewItem [''watch'', ''clothing''])
       (NewItemUsecase (memRepo (ErrItemNotFound :: unit error)))
       \<lparr>new_Name = ''Rolex'', new_Category = ''watch'', new_Brand = ''ROLEX'',
        new_PurchasePrice = 1500000, new_PurchaseDate = ''2023-01-15''\<rparr>
       [sample_item 1 ''clothing'']
     = (Inr (Some (sample_item 2 ''watch'')),
        [sample_item 1 ''clothing'', sample_item 2 ''watch''],
        [Call_Create (Some (sample_item 0 ''watch''))])
   \<and> CreateItem (specNewItem [''watch'', ''clothing''])
       (NewItemUsecase (downRepo (Other ''connection refused'')))
       \<lparr>new_Name = ''Rolex'', new_Category = ''watch'', new_Brand = ''ROLEX'',
        new_PurchasePrice = 1500000, new_PurchaseDate = ''2023-01-15''\<rparr>
       [sample_item 1 ''clothing'']
     = (Inl (Errorf ''failed to create item: '' (Other ''connection refused'') ''''),
        [sample_item 1 ''clothing''],
        [Call_Create (Some (sample_item 0 ''watch''))])"
proof -
  let ?new = "specNewItem [''watch'', ''clothing'']"
  let ?bad = "\<lparr>new_Name = '''', new_Category = ''watch'', new_Brand = ''ROLEX'',
      new_PurchasePrice = 1500000, new_PurchaseDate = ''2023-01-15''\<rparr>"
  let ?good = "\<lparr>new_Name = ''Rolex'', new_Category = ''watch'', new_Brand = ''ROLEX'',
      new_PurchasePrice = 1500000, new_PurchaseDate = ''2023-01-15''\<rparr>"
  let ?s = "[sample_item 1 ''clothing'']"
  have rejected: "?new (new_Name ?bad) (new_Category ?bad) (new_Brand ?bad)
                    (new_PurchasePrice ?bad) (new_PurchaseDate ?bad)
                  = Inl ''name must be 1 to 100 characters''"
    by (simp add: specNewItem_def)
  have constructed: "?new (new_Name ?good) (new_Category ?good) (new_Brand ?good)
                    (new_PurchasePrice ?good) (new_PurchaseDate ?good)
                  = Inr (Some (sample_item 0 ''watch''))"
    by (simp add: specNewItem_def sample_item_def)
  have created: "Create (itemRepo (NewItemUsecase (memRepo (ErrItemNotFound :: unit error))))
                   (Some (sample_item 0 ''watch'')) ?s
                 = (Inr (Some (sample_item 2 ''watch'')), [sample_item 1 ''clothing'', sample_item 2 ''watch''])"
    by (simp add: NewItemUsecase_def memRepo_def sample_item_def Let_def)
  have failed: "Create (itemRepo (NewItemUsecase (downRepo (Other ''connection refused''))))
                   (Some (sample_item 0 ''watch'')) ?s
                 = (Inl (Other ''connection refused''), ?s)"
    by (simp add: NewItemUsecase_def downRepo_def)
  from CreateItem_validates_then_creates
         [of ?new ?bad "NewItemUsecase (memRepo (ErrItemNotFound :: unit error))" ?s] rejected
  have 1: "CreateItem ?new (NewItemUsecase (memRepo (ErrItemNotFound :: unit error))) ?bad ?s
           = (Inl (Errorf '''' ErrInvalidInput '': name must be 1 to 100 characters''), ?s, [])"
    by simp
  from CreateItem_validates_then_creates
         [of ?new ?good "NewItemUsecase (memRepo (ErrItemNotFound :: unit error))" ?s]
       constructed created
  have 2: "CreateItem ?new (NewItemUsecase (memRepo (ErrItemNotFound :: unit error))) ?good ?s
           = (Inr (Some (sample_item 2 ''watch'')),
              [sample_item 1 ''clothing'', sample_item 2 ''watch''],
              [Call_Create (Some (sample_item 0 ''watch''))])"
    by blast
  from CreateItem_validates_then_creates
         [of ?new ?good "NewItemUsecase (downRepo (Other ''connection refused''))" ?s]
       constructed failed
  have 3: "CreateItem ?new (NewItemUsecase (downRepo (Other ''connection refused''))) ?good ?s
           = (Inl (Errorf ''failed to create item: '' (Other ''connection refused'') ''''), ?s,
              [Call_Create (Some (sample_item 0 ''watch''))])"
    by blast
  from 1 2 3 show ?thesis by blast
qed

subsection \<open>Deleting twice\<close>

lemma behaves_as_map_FindByID:
  assumes "behaves_as_map IsNotFoundError r items"
  shows "case FindByID r item_id s of
           (Inl err, s1) \<Rightarrow> items s item_id = None \<and> IsNotFoundError err \<and> items s1 = items s
         | (Inr item, s1) \<Rightarrow> item \<noteq> None \<and> items s item_id = item \<and> items s1 = items s"
  using assms [unfolded behaves_as_map_def, rule_format, of s item_id] by (rule conjunct1)

lemma behaves_as_map_Delete:
  assumes "behaves_as_map IsNotFoundError r items" and "items s item_id \<noteq> None"
  shows "\<exists>s1. Delete r item_id s = (None, s1) \<and> items s1 = (items s)(item_id := None)"
proof -
  have "case Delete r item_id s of
              (err, s1) \<Rightarrow> err = None \<and> items s1 = (items s)(item_id := None)"
    using assms(1) [unfolded behaves_as_map_def, rule_format, of s item_id, THEN conjunct2]
      assms(2) by (rule mp)
  then show ?thesis by (cases "Delete r item_id s") simp
qed

lemma DeleteItem_present:
  assumes m: "behaves_as_map IsNotFoundError (itemRepo u) items"
      and pos: "0 < sint item_id" and present: "items s item_id \<noteq> None"
  shows "\<exists>s1. DeleteItem IsNotFoundError u item_id s
                = (None, s1, [Call_FindByID item_id, Call_Delete item_id])
              \<and> items s1 = (items s)(item_id := None)"
proof -
  obtain r s0 where look: "FindByID (itemRepo u) item_id s = (r, s0)"
    by (cases "FindByID (itemRepo u) item_id s")
  from behaves_as_map_FindByID [OF m, where item_id = item_id and s = s] look present
  obtain item where r: "r = Inr item" and same: "items s0 = items s"
    by (cases r) auto
  from present same have "items s0 item_id \<noteq> None" by simp
  from behaves_as_map_Delete [OF m this]
  obtain s1 where del: "Delete (itemRepo u) item_id s0 = (None, s1)"
    and gone: "items s1 = (items s0)(item_id := None)" by blast
  from look r have l: "FindByID (itemRepo u) item_id s = (Inr item, s0)" by simp
  have "DeleteItem IsNotFoundError u item_id s
          = (None, s1, [Call_FindByID item_id, Call_Delete item_id])"
    by (simp add: DeleteItem_lookup_ok [OF pos l] del)
  with gone same show ?thesis by simp
qed

lemma DeleteItem_absent:
  assumes m: "behaves_as_map IsNotFoundError (itemRepo u) items"
      and pos: "0 < sint item_id" and absent: "items s item_id = None"
  shows "\<exists>s1. DeleteItem IsNotFoundError u item_id s
                = (Some ErrItemNotFound, s1, [Call_FindByID item_id])"
proof -
  obtain r s0 where look: "FindByID (itemRepo u) item_id s = (r, s0)"
    by (cases "FindByID (itemRepo u) item_id s")
  from behaves_as_map_FindByID [OF m, where item_id = item_id and s = s] look absent
  obtain err where r: "r = Inl err" and nf: "IsNotFoundError err"
    by (cases r) auto
  from look r have l: "FindByID (itemRepo u) item_id s = (Inl err, s0)" by simp
  show ?thesis by (simp add: DeleteItem_lookup_failed [OF pos l] nf)
qed

text \<open>
  C8. In a repository that behaves as a map from ids to items, for every id \<open>> 0\<close> whose
  item exists, \<^verbatim>\<open>DeleteItem\<close> called twice in a row on that id succeeds the first time
  (no error) and returns \<^verbatim>\<open>ErrItemNotFound\<close> the second time.
\<close>

theorem DeleteItem_twice:
  assumes m: "behaves_as_map IsNotFoundError (itemRepo u) items"
      and pos: "0 < sint item_id"
      and present: "items s item_id = Some item"
  shows "\<exists>s1 s2.
           DeleteItem IsNotFoundError u item_id s
             = (None, s1, [Call_FindByID item_id, Call_Delete item_id])
         \<and> DeleteItem IsNotFoundError u item_id s1
             = (Some ErrItemNotFound, s2, [Call_FindByID item_id])"
proof -
  from present have "items s item_id \<noteq> None" by simp
  from DeleteItem_present [OF m pos this]
  obtain s1 where first: "DeleteItem IsNotFoundError u item_id s
                = (None, s1, [Call_FindByID item_id, Call_Delete item_id])"
    and gone: "items s1 = (items s)(item_id := None)" by blast
  from gone have "items s1 item_id = None" by simp
  from DeleteItem_absent [OF m pos this]
  obtain s2 where "DeleteItem IsNotFoundError u item_id s1
                = (Some ErrItemNotFound, s2, [Call_FindByID item_id])" by blast
  with first show ?thesis by blast
qed

lemma find_filter_has_ID:
  "find (has_ID j) (filter (\<lambda>x. \<not> has_ID i x) s) = (if j = i then None else find (has_ID j) s)"
proof (induction s)
  case Nil
  show ?case by simp
next
  case (Cons a s)
  have "has_ID i a \<Longrightarrow> has_ID j a \<Longrightarrow> j = i" by (simp add: has_ID_def)
  with Cons show ?case by auto
qed

lemma errors_Is_refl: "errors_Is err err"
  by (cases err) simp_all

lemma memRepo_behaves_as_map:
  "behaves_as_map (is_error notFound) (memRepo notFound) (\<lambda>s item_id. find (has_ID item_id) s)"
  unfolding behaves_as_map_def
proof (intro allI conjI impI)
  fix s :: "Item list" and item_id
  show "case FindByID (memRepo notFound) item_id s of
           (Inl err, s1) \<Rightarrow> find (has_ID item_id) s = None \<and> is_error notFound err
              \<and> (\<lambda>item_id. find (has_ID item_id) s1) = (\<lambda>item_id. find (has_ID item_id) s)
         | (Inr item, s1) \<Rightarrow> item \<noteq> None \<and> find (has_ID item_id) s = item
              \<and> (\<lambda>item_id. find (has_ID item_id) s1) = (\<lambda>item_id. find (has_ID item_id) s)"
    by (cases "find (has_ID item_id) s") (simp_all add: memRepo_def is_error_def errors_Is_refl)
  assume "find (has_ID item_id) s \<noteq> None"
  then show "case Delete (memRepo notFound) item_id s of
              (err, s1) \<Rightarrow> err = None
                \<and> (\<lambda>item_id. find (has_ID item_id) s1)
                    = (\<lambda>item_id. find (has_ID item_id) s)(item_id := None)"
    by (cases "find (has_ID item_id) s")
       (simp_all add: memRepo_def find_filter_has_ID fun_eq_iff)
qed


theorem DeleteItem_twice_witness:
  "0 < sint (1 :: int64)
   \<and> DeleteItem (is_error (Other ''sql: no rows''))
       (NewItemUsecase (memRepo (Other ''sql: no rows''))) 1
       [sample_item 1 ''clothing'', sample_item 2 ''watch'']
     = (None, [sample_item 2 ''watch''], [Call_FindByID 1, Call_Delete 1])
   \<and> DeleteItem (is_error (Other ''sql: no rows''))
       (NewItemUsecase (memRepo (Other ''sql: no rows''))) 1
       [sample_item 2 ''watch'']
     = (Some ErrItemNotFound, [sample_item 2 ''watch''], [Call_FindByID 1])"
proof -
  let ?u = "NewItemUsecase (memRepo (Other ''sql: no rows''))"
  let ?s = "[sample_item 1 ''clothing'', sample_item 2 ''watch'']"
  have pos: "0 < sint (1 :: int64)" by simp
  have m: "behaves_as_map (is_error (Other ''sql: no rows'')) (itemRepo ?u)
             (\<lambda>s item_id. find (has_ID item_id) s)"
    using memRepo_behaves_as_map [of "Other ''sql: no rows''"] by (simp add: NewItemUsecase_def)
  have present: "(\<lambda>s item_id. find (has_ID item_id) s) ?s 1 = Some (sample_item 1 ''clothing'')"
    by (simp add: has_ID_def sample_item_def)
  have run1: "snd (DeleteItem (is_error (Other ''sql: no rows'')) ?u 1 ?s)
                = ([sample_item 2 ''watch''], [Call_FindByID 1, Call_Delete 1])"
    by (simp add: DeleteItem_def NewItemUsecase_def memRepo_def has_ID_def sample_item_def)
  have run2: "snd (DeleteItem (is_error (Other ''sql: no rows'')) ?u 1 [sample_item 2 ''watch''])
                = ([sample_item 2 ''watch''], [Call_FindByID 1])"
    by (simp add: DeleteItem_def NewItemUsecase_def memRepo_def has_ID_def sample_item_def
          is_error_def)
  note inst = DeleteItem_twice
      [where IsNotFoundError = "is_error (Other ''sql: no rows'')" and u = ?u
         and items = "\<lambda>s item_id. find (has_ID item_id) s" and item_id = 1 and s = ?s
         and item = "sample_item 1 ''clothing''", OF m pos present]
  from inst obtain s1 where "\<exists>s2. DeleteItem (is_error (Other ''sql: no rows'')) ?u 1 ?s
                = (None, s1, [Call_FindByID 1, Call_Delete 1])
     \<and> DeleteItem (is_error (Other ''sql: no rows'')) ?u 1 s1
                = (Some ErrItemNotFound, s2, [Call_FindByID 1])" by (rule exE)
  then obtain s2 where both: "DeleteItem (is_error (Other ''sql: no rows'')) ?u 1 ?s
                = (None, s1, [Call_FindByID 1, Call_Delete 1])
     \<and> DeleteItem (is_error (Other ''sql: no rows'')) ?u 1 s1
                = (Some ErrItemNotFound, s2, [Call_FindByID 1])" by (rule exE)
  from both have first: "DeleteItem (is_error (Other ''sql: no rows'')) ?u 1 ?s
                = (None, s1, [Call_FindByID 1, Call_Delete 1])" by (rule conjunct1)
  from both have second: "DeleteItem (is_error (Other ''sql: no rows'')) ?u 1 s1
                = (Some ErrItemNotFound, s2, [Call_FindByID 1])" by (rule conjunct2)
  from first run1 have s1: "s1 = [sample_item 2 ''watch'']" by simp
  from second s1 run2 have s2: "s2 = [sample_item 2 ''watch'']" by simp
  from pos first second show ?thesis unfolding s1 s2 by (intro conjI)
qed

subsection \<open>Not-found signals of the repository\<close>

text \<open>
  C3, as amended. For an id \<open>> 0\<close>, a not-found signal of the existence lookup
  \<^verbatim>\<open>FindByID\<close> is returned by \<^verbatim>\<open>GetItemByID\<close>, \<^verbatim>\<open>UpdateItem\<close> and \<^verbatim>\<open>DeleteItem\<close> as
  \<^verbatim>\<open>ErrItemNotFound\<close> itself, which carries nothing of the store's error. A failure of
  any other repository call the operations make (\<^verbatim>\<open>Update\<close>, \<^verbatim>\<open>Delete\<close>, \<^verbatim>\<open>FindAll\<close>,
  \<^verbatim>\<open>Create\<close>, \<^verbatim>\<open>GetSummaryByCategory\<close>), a not-found signal or not, is returned
  wrapped in the message of the operation, with the repository's error inside.
\<close>

theorem not_found_translated_at_lookup_wrapped_elsewhere:
  fixes u :: "('s, 'e) itemUsecase"
  shows "(\<forall>err s1.
            0 < sint item_id
            \<and> FindByID (itemRepo u) item_id s = (Inl err, s1) \<and> IsNotFoundError err
            \<longrightarrow> fst (GetItemByID IsNotFoundError u item_id s) = Inl ErrItemNotFound
              \<and> fst (UpdateItem IsNotFoundError u item_id input s) = Returns (Inl ErrItemNotFound)
              \<and> fst (DeleteItem IsNotFoundError u item_id s) = Some ErrItemNotFound)
       \<and> (\<forall>existingItem s1 item err s2.
            0 < sint item_id
            \<and> FindByID (itemRepo u) item_id s = (Inr existingItem, s1)
            \<and> (update_fields input existingItem :: ('e error + Item option) outcome)
                = Returns (Inr item)
            \<and> Update (itemRepo u) item s1 = (Inl err, s2)
            \<longrightarrow> fst (UpdateItem IsNotFoundError u item_id input s)
                  = Returns (Inl (Errorf ''failed to update item: '' err ''''))
              \<and> errors_Is (Errorf ''failed to update item: '' err '''') err)
       \<and> (\<forall>existingItem s1 err s2.
            0 < sint item_id
            \<and> FindByID (itemRepo u) item_id s = (Inr existingItem, s1)
            \<and> Delete (itemRepo u) item_id s1 = (Some err, s2)
            \<longrightarrow> fst (DeleteItem IsNotFoundError u item_id s)
                  = Some (Errorf ''failed to delete item: '' err '''')
              \<and> errors_Is (Errorf ''failed to delete item: '' err '''') err)
       \<and> (\<forall>err s1.
            FindAll (itemRepo u) s = (Inl err, s1)
            \<longrightarrow> fst (GetAllItems u s) = Inl (Errorf ''failed to retrieve items: '' err '''')
              \<and> errors_Is (Errorf ''failed to retrieve items: '' err '''') err)
       \<and> (\<forall>item err s1.
            NewItem (new_Name newInput) (new_Category newInput) (new_Brand newInput)
              (new_PurchasePrice newInput) (new_PurchaseDate newInput) = Inr item
            \<and> Create (itemRepo u) item s = (Inl err, s1)
            \<longrightarrow> fst (CreateItem NewItem u newInput s)
                  = Inl (Errorf ''failed to create item: '' err '''')
              \<and> errors_Is (Errorf ''failed to create item: '' err '''') err)
       \<and> (\<forall>err s1.
            GetSummaryByCategory (itemRepo u) s = (Inl err, s1)
            \<longrightarrow> fst (GetCategorySummary validCategories u s)
                  = Inl (Errorf ''failed to get category summary: '' err '''')
              \<and> errors_Is (Errorf ''failed to get category summary: '' err '''') err)"
proof (intro conjI allI impI)
  fix err s1
  assume h: "0 < sint item_id
             \<and> FindByID (itemRepo u) item_id s = (Inl err, s1) \<and> IsNotFoundError err"
  then have pos: "0 < sint item_id"
    and l: "FindByID (itemRepo u) item_id s = (Inl err, s1)" and nf: "IsNotFoundError err"
    by simp_all
  show "fst (GetItemByID IsNotFoundError u item_id s) = Inl ErrItemNotFound"
    by (simp add: GetItemByID_lookup_failed [OF pos l] nf)
  show "fst (UpdateItem IsNotFoundError u item_id input s) = Returns (Inl ErrItemNotFound)"
    by (simp add: UpdateItem_lookup_failed [OF pos l] nf)
  show "fst (DeleteItem IsNotFoundError u item_id s) = Some ErrItemNotFound"
    by (simp add: DeleteItem_lookup_failed [OF pos l] nf)
next
  fix existingItem s1 item err s2
  assume h: "0 < sint item_id
            \<and> FindByID (itemRepo u) item_id s = (Inr existingItem, s1)
            \<and> (update_fields input existingItem :: ('e error + Item option) outcome)
                = Returns (Inr item)
            \<and> Update (itemRepo u) item s1 = (Inl err, s2)"
  then have pos: "0 < sint item_id"
    and l: "FindByID (itemRepo u) item_id s = (Inr existingItem, s1)" by simp_all
  from h show "fst (UpdateItem IsNotFoundError u item_id input s)
                = Returns (Inl (Errorf ''failed to update item: '' err ''''))"
    by (simp add: UpdateItem_lookup_ok [OF pos l])
  show "errors_Is (Errorf ''failed to update item: '' err '''') err"
    by (simp add: errors_Is_refl)
next
  fix existingItem s1 err s2
  assume h: "0 < sint item_id
            \<and> FindByID (itemRepo u) item_id s = (Inr existingItem, s1)
            \<and> Delete (itemRepo u) item_id s1 = (Some err, s2)"
  then have pos: "0 < sint item_id"
    and l: "FindByID (itemRepo u) item_id s = (Inr existingItem, s1)" by simp_all
  from h show "fst (DeleteItem IsNotFoundError u item_id s)
                = Some (Errorf ''failed to delete item: '' err '''')"
    by (simp add: DeleteItem_lookup_ok [OF pos l])
  show "errors_Is (Errorf ''failed to delete item: '' err '''') err"
    by (simp add: errors_Is_refl)
next
  fix err s1
  assume "FindAll (itemRepo u) s = (Inl err, s1)"
  then show "fst (GetAllItems u s) = Inl (Errorf ''failed to retrieve items: '' err '''')"
    by (simp add: GetAllItems_def)
  show "errors_Is (Errorf ''failed to retrieve items: '' err '''') err"
    by (simp add: errors_Is_refl)
next
  fix item err s1
  assume "NewItem (new_Name newInput) (new_Category newInput) (new_Brand newInput)
              (new_PurchasePrice newInput) (new_PurchaseDate newInput) = Inr item
            \<and> Create (itemRepo u) item s = (Inl err, s1)"
  then show "fst (CreateItem NewItem u newInput s)
                = Inl (Errorf ''failed to create item: '' err '''')"
    by (simp add: CreateItem_def)
  show "errors_Is (Errorf ''failed to create item: '' err '''') err"
    by (simp add: errors_Is_refl)
next
  fix err s1
  assume "GetSummaryByCategory (itemRepo u) s = (Inl err, s1)"
  then show "fst (GetCategorySummary validCategories u s)
                = Inl (Errorf ''failed to get category summary: '' err '''')"
    by (simp add: GetCategorySummary_def)
  show "errors_Is (Errorf ''failed to get category summary: '' err '''') err"
    by (simp add: errors_Is_refl)
qed

text \<open>
  The claim as first stated asks for the translation in the mutation phase too. It fails
  when the item is deleted by another caller between the lookup and the mutation: the
  store's not-found error then comes back wrapped, and the result is not of the kind
  \<^verbatim>\<open>ErrItemNotFound\<close>.
\<close>

theorem mutation_not_found_is_wrapped_counterexample:
  "Update (itemRepo (NewItemUsecase (racyRepo (Other ''sql: no rows''))))
     (Some ((sample_item 1 ''clothing'')\<lparr>Name := ''Omega''\<rparr>)) []
   = (Inl (Other ''sql: no rows''), [])
   \<and> is_error (Other ''sql: no rows'') (Other ''sql: no rows'' :: string error)
   \<and> UpdateItem (is_error (Other ''sql: no rows''))
       (NewItemUsecase (racyRepo (Other ''sql: no rows''))) 1
       \<lparr>upd_Name = Some ''Omega'', upd_Brand = None, upd_PurchasePrice = None\<rparr>
       [sample_item 1 ''clothing'']
     = (Returns (Inl (Errorf ''failed to update item: '' (Other ''sql: no rows'') '''')), [],
        [Call_FindByID 1,
         Call_Update (Some ((sample_item 1 ''clothing'')\<lparr>Name := ''Omega''\<rparr>))])
   \<and> Delete (itemRepo (NewItemUsecase (racyRepo (Other ''sql: no rows'')))) 1 []
     = (Some (Other ''sql: no rows''), [])
   \<and> DeleteItem (is_error (Other ''sql: no rows''))
       (NewItemUsecase (racyRepo (Other ''sql: no rows''))) 1 [sample_item 1 ''clothing'']
     = (Some (Errorf ''failed to delete item: '' (Other ''sql: no rows'') ''''), [],
        [Call_FindByID 1, Call_Delete 1])
   \<and> Errorf ''failed to update item: '' (Other ''sql: no rows'') '''' \<noteq> ErrItemNotFound
   \<and> \<not> errors_Is (Errorf ''failed to update item: '' (Other ''sql: no rows'') '''')
          ErrItemNotFound
   \<and> errors_Is (Errorf ''failed to update item: '' (Other ''sql: no rows'') '''')
         (Other ''sql: no rows'')
   \<and> \<not> errors_Is (Errorf ''failed to delete item: '' (Other ''sql: no rows'') '''')
          ErrItemNotFound
   \<and> errors_Is (Errorf ''failed to delete item: '' (Other ''sql: no rows'') '''')
         (Other ''sql: no rows'')"
  by (simp add: UpdateItem_def DeleteItem_def update_fields_def update_Name_def update_Brand_def
        update_PurchasePrice_def NewItemUsecase_def racyRepo_def memRepo_def has_ID_def
        sample_item_def is_error_def)

theorem not_found_translated_at_lookup_wrapped_elsewhere_witness:
  "0 < sint (1 :: int64)
   \<and> fst (GetItemByID (is_error (Other ''sql: no rows''))
            (NewItemUsecase (racyRepo (Other ''sql: no rows''))) 1 [])
       = Inl ErrItemNotFound
   \<and> fst (UpdateItem (is_error (Other ''sql: no rows''))
            (NewItemUsecase (racyRepo (Other ''sql: no rows''))) 1
            \<lparr>upd_Name = Some ''Omega'', upd_Brand = None, upd_PurchasePrice = None\<rparr> [])
       = Returns (Inl ErrItemNotFound)
   \<and> fst (DeleteItem (is_error (Other ''sql: no rows''))
            (NewItemUsecase (racyRepo (Other ''sql: no rows''))) 1 [])
       = Some ErrItemNotFound
   \<and> fst (UpdateItem (is_error (Other ''sql: no rows''))
            (NewItemUsecase (racyRepo (Other ''sql: no rows''))) 1
            \<lparr>upd_Name = Some ''Omega'', upd_Brand = None, upd_PurchasePrice = None\<rparr>
            [sample_item 1 ''clothing''])
       = Returns (Inl (Errorf ''failed to update item: '' (Other ''sql: no rows'') ''''))
   \<and> fst (DeleteItem (is_error (Other ''sql: no rows''))
            (NewItemUsecase (racyRepo (Other ''sql: no rows''))) 1 [sample_item 1 ''clothing''])
       = Some (Errorf ''failed to delete item: '' (Other ''sql: no rows'') '''')
   \<and> fst (GetAllItems (NewItemUsecase (downRepo (Other ''sql: no rows''))) [sample_item 1 ''clothing''])
       = Inl (Errorf ''failed to retrieve items: '' (Other ''sql: no rows'') '''')
   \<and> fst (CreateItem (specNewItem [''watch'', ''clothing''])
            (NewItemUsecase (downRepo (Other ''sql: no rows'')))
            \<lparr>new_Name = ''Rolex'', new_Category = ''watch'', new_Brand = ''ROLEX'',
             new_PurchasePrice = 1500000, new_PurchaseDate = ''2023-01-15''\<rparr>
            [sample_item 1 ''clothing''])
       = Inl (Errorf ''failed to create item: '' (Other ''sql: no rows'') '''')
   \<and> fst (GetCategorySummary [''watch'', ''clothing'']
            (NewItemUsecase (downRepo (Other ''sql: no rows''))) [sample_item 1 ''clothing''])
       = Inl (Errorf ''failed to get category summary: '' (Other ''sql: no rows'') '''')"
proof -
  let ?nf = "Other ''sql: no rows'' :: string error"
  let ?racy = "NewItemUsecase (racyRepo ?nf)"
  let ?down = "NewItemUsecase (downRepo ?nf) :: (Item list, string) itemUsecase"
  let ?input = "\<lparr>upd_Name = Some ''Omega'', upd_Brand = None, upd_PurchasePrice = None\<rparr>"
  let ?new = "specNewItem [''watch'', ''clothing'']"
  let ?good = "\<lparr>new_Name = ''Rolex'', new_Category = ''watch'', new_Brand = ''ROLEX'',
      new_PurchasePrice = 1500000, new_PurchaseDate = ''2023-01-15''\<rparr>"
  let ?s = "[sample_item 1 ''clothing'']"
  have pos: "0 < sint (1 :: int64)" by simp
  have missing: "0 < sint (1 :: int64)
                 \<and> FindByID (itemRepo ?racy) 1 [] = (Inl ?nf, []) \<and> is_error ?nf ?nf"
    by (simp add: NewItemUsecase_def racyRepo_def memRepo_def is_error_def)
  have update_fails:
    "0 < sint (1 :: int64)
     \<and> FindByID (itemRepo ?racy) 1 ?s = (Inr (Some (sample_item 1 ''clothing'')), [])
     \<and> (update_fields ?input (Some (sample_item 1 ''clothing''))
          :: (string error + Item option) outcome)
        = Returns (Inr (Some ((sample_item 1 ''clothing'')\<lparr>Name := ''Omega''\<rparr>)))
     \<and> Update (itemRepo ?racy) (Some ((sample_item 1 ''clothing'')\<lparr>Name := ''Omega''\<rparr>)) []
        = (Inl ?nf, [])"
    by (simp add: NewItemUsecase_def racyRepo_def memRepo_def has_ID_def sample_item_def
          update_fields_def update_Name_def update_Brand_def update_PurchasePrice_def)
  have delete_fails:
    "0 < sint (1 :: int64)
     \<and> FindByID (itemRepo ?racy) 1 ?s = (Inr (Some (sample_item 1 ''clothing'')), [])
     \<and> Delete (itemRepo ?racy) 1 [] = (Some ?nf, [])"
    by (simp add: NewItemUsecase_def racyRepo_def memRepo_def has_ID_def sample_item_def)
  have all_fails: "FindAll (itemRepo ?down) ?s = (Inl ?nf, ?s)"
    and summary_fails: "GetSummaryByCategory (itemRepo ?down) ?s = (Inl ?nf, ?s)"
    by (simp_all add: NewItemUsecase_def downRepo_def)
  have create_fails:
    "?new (new_Name ?good) (new_Category ?good) (new_Brand ?good)
       (new_PurchasePrice ?good) (new_PurchaseDate ?good) = Inr (Some (sample_item 0 ''watch''))
     \<and> Create (itemRepo ?down) (Some (sample_item 0 ''watch'')) ?s = (Inl ?nf, ?s)"
    by (simp add: specNewItem_def sample_item_def NewItemUsecase_def downRepo_def)
  note on_missing = not_found_translated_at_lookup_wrapped_elsewhere
      [where u = ?racy and item_id = 1 and s = "[]" and input = ?input
         and IsNotFoundError = "is_error ?nf" and validCategories = "[''watch'', ''clothing'']"
         and NewItem = ?new and newInput = ?good]
  note on_present = not_found_translated_at_lookup_wrapped_elsewhere
      [where u = ?racy and item_id = 1 and s = ?s and input = ?input
         and IsNotFoundError = "is_error ?nf" and validCategories = "[''watch'', ''clothing'']"
         and NewItem = ?new and newInput = ?good]
  note on_down = not_found_translated_at_lookup_wrapped_elsewhere
      [where u = ?down and item_id = 1 and s = ?s and input = ?input
         and IsNotFoundError = "is_error ?nf" and validCategories = "[''watch'', ''clothing'']"
         and NewItem = ?new and newInput = ?good]
  from on_missing [THEN conjunct1, rule_format, OF missing]
  have a: "fst (GetItemByID (is_error ?nf) ?racy 1 []) = Inl ErrItemNotFound
         \<and> fst (UpdateItem (is_error ?nf) ?racy 1 ?input []) = Returns (Inl ErrItemNotFound)
         \<and> fst (DeleteItem (is_error ?nf) ?racy 1 []) = Some ErrItemNotFound" .
  from on_present [THEN conjunct2, THEN conjunct1, rule_format, OF update_fails, THEN conjunct1]
  have b: "fst (UpdateItem (is_error ?nf) ?racy 1 ?input ?s)
           = Returns (Inl (Errorf ''failed to update item: '' ?nf ''''))" .
  from on_present [THEN conjunct2, THEN conjunct2, THEN conjunct1, rule_format, OF delete_fails,
                   THEN conjunct1]
  have c: "fst (DeleteItem (is_error ?nf) ?racy 1 ?s)
           = Some (Errorf ''failed to delete item: '' ?nf '''')" .
  from on_down [THEN conjunct2, THEN conjunct2, THEN conjunct2, THEN conjunct1, rule_format,
                OF all_fails, THEN conjunct1]
  have d: "fst (GetAllItems ?down ?s) = Inl (Errorf ''failed to retrieve items: '' ?nf '''')" .
  from on_down [THEN conjunct2, THEN conjunct2, THEN conjunct2, THEN conjunct2, THEN conjunct1,
                rule_format, OF create_fails, THEN conjunct1]
  have e: "fst (CreateItem ?new ?down ?good ?s)
           = Inl (Errorf ''failed to create item: '' ?nf '''')" .
  from on_down [THEN conjunct2, THEN conjunct2, THEN conjunct2, THEN conjunct2, THEN conjunct2,
                rule_format, OF summary_fails, THEN conjunct1]
  have f: "fst (GetCategorySummary [''watch'', ''clothing''] ?down ?s)
           = Inl (Errorf ''failed to get category summary: '' ?nf '''')" .
  from pos a b c d e f show ?thesis by (intro conjI) simp_all
qed

end
